theory Spec2Isabelle
  imports Complex_Main "HOL-Library.Multiset" "HOL-Library.Product_Lexorder" "HOL-Library.Word"
begin

section \<open>Data model\<close>

text \<open>
  External identifiers of users and items are opaque keys that the code only compares
  and sorts; they are natural numbers here. An interaction log (a pandas DataFrame with
  the columns \<open>user_id\<close>, \<open>item_id\<close>, \<open>relevance\<close>) is the list of its rows. Scores are
  floating-point numbers in the source and exact reals here: rounding, infinities and
  NaN are outside the embedding.
\<close>

type_synonym user_id = nat
type_synonym item_id = nat
type_synonym log_row = "user_id \<times> item_id \<times> real"

datatype error = ValueError | RuntimeError | IndexError

text \<open>\<open>int(x)\<close> of a float: truncation towards zero.\<close>

definition py_int :: "real \<Rightarrow> int" where
  "py_int x = (if 0 \<le> x then \<lfloor>x\<rfloor> else \<lceil>x\<rceil>)"

section \<open>The exclusion mask (models.py, lines 379 and 412-420; again 515 and 539-547)\<close>

text \<open>
  \<open>df_log_exclude.groupby(['user_id', 'item_id'])[['relevance']].count().reset_index()\<close>:
  one row for every distinct (user, item) pair of the log, in sorted key order, with the
  number of log rows of that pair.
\<close>

definition groupby_count :: "log_row list \<Rightarrow> ((user_id \<times> item_id) \<times> nat) list" where
  "groupby_count df =
     map (\<lambda>key. (key, length (filter (\<lambda>(u, i, r). (u, i) = key) df)))
       (sort (remdups (map (\<lambda>(u, i, r). (u, i)) df)))"

text \<open>
  \<open>DataFrame.pivot(index='user_id', columns='item_id', values='relevance')\<close>: the wide
  table, a cell for every (index, column) pair of the long table and NaN (\<open>None\<close>)
  elsewhere. pandas raises ValueError when an (index, column) pair occurs twice.
\<close>

type_synonym pivot_table = "(user_id \<times> item_id) \<rightharpoonup> nat"

definition pivot :: "((user_id \<times> item_id) \<times> nat) list \<Rightarrow> error + pivot_table" where
  "pivot df = (if distinct (map fst df) then Inr (map_of df) else Inl ValueError)"

text \<open>
  Lines 412-420 (and, word for word, 539-547): the rows of the grouped exclusion log
  whose user is in the batch; when there is none the mask is \<open>np.zeros\<close> of shape
  (batch users, items); otherwise the rows are pivoted, reindexed by the batch users and
  the candidate items, and the mask is 1 where the reindexed cell is not NaN. The pivot
  operation is a parameter, so that a statement can speak about whether it is called.
\<close>

definition build_drop_mask_with ::
  "(((user_id \<times> item_id) \<times> nat) list \<Rightarrow> error + pivot_table) \<Rightarrow>
   ((user_id \<times> item_id) \<times> nat) list \<Rightarrow> user_id list \<Rightarrow> item_id list \<Rightarrow>
   error + real list list" where
  "build_drop_mask_with pivot_op df_log_exclude batch_id_users id_items =
     (let df_log_e = filter (\<lambda>((u, i), c). u \<in> set batch_id_users) df_log_exclude in
      if length df_log_e = 0
      then Inr (replicate (length batch_id_users) (replicate (length id_items) 0))
      else (case pivot_op df_log_e of
              Inl e \<Rightarrow> Inl e
            | Inr tbl \<Rightarrow>
                Inr (map (\<lambda>u. map (\<lambda>i. if tbl (u, i) \<noteq> None then 1 else 0) id_items)
                       batch_id_users)))"

definition build_drop_mask ::
  "((user_id \<times> item_id) \<times> nat) list \<Rightarrow> user_id list \<Rightarrow> item_id list \<Rightarrow>
   error + real list list" where
  "build_drop_mask = build_drop_mask_with pivot"

section \<open>Top-k extraction\<close>

text \<open>
  \<open>torch.topk(input, k, dim=1)\<close> is a primitive of the tensor library; the repository
  only calls it (lines 222 and 553). The functions that call it take it as the parameter
  \<open>top_k\<close>: a function of one score row and k that returns the selected positions of the
  row or raises. Along \<open>dim=1\<close> of a matrix it works row by row.
\<close>

fun topk_rows_with ::
  "(real list \<Rightarrow> nat \<Rightarrow> error + nat list) \<Rightarrow> real list list \<Rightarrow> nat \<Rightarrow> error + nat list list" where
  "topk_rows_with top_k [] k = Inr []"
| "topk_rows_with top_k (r # rs) k =
     (case top_k r k of
        Inl e \<Rightarrow> Inl e
      | Inr idx \<Rightarrow>
          (case topk_rows_with top_k rs k of Inl e \<Rightarrow> Inl e | Inr rest \<Rightarrow> Inr (idx # rest)))"

text \<open>
  Modelled from the spec: the primitive as sections 2 and 4.4 of the specification
  describe it: the indices of the k largest values of a score row, in descending order
  of value, equal values in index order. The library refuses a k larger than the row.
\<close>

definition argsort_desc :: "real list \<Rightarrow> nat list" where
  "argsort_desc r = sort_key (\<lambda>j. - (r ! j)) [0..<length r]"

definition topk :: "real list \<Rightarrow> nat \<Rightarrow> error + nat list" where
  "topk r k = (if length r < k then Inl RuntimeError else Inr (take k (argsort_desc r)))"

definition topk_rows :: "real list list \<Rightarrow> nat \<Rightarrow> error + nat list list" where
  "topk_rows = topk_rows_with topk"

text \<open>
  Modelled from the spec: a primitive that differs from \<open>topk\<close> only among equal values,
  where it returns the higher index first. Section 4.4 of the specification leaves the
  order of equal values to the primitive.
\<close>

definition topk_higher_index_first :: "real list \<Rightarrow> nat \<Rightarrow> error + nat list" where
  "topk_higher_index_first r k =
     (if length r < k then Inl RuntimeError
      else Inr (take k (sort_key (\<lambda>j. - (r ! j)) (rev [0..<length r]))))"

section \<open>Masking a score batch (lines 220-221 and 549-551)\<close>

text \<open>
  \<open>user_item = drop_mask * _minus_one + (1.0 - drop_mask) * user_item\<close>, where
  \<open>_minus_one\<close> is the tensor of the shape of \<open>user_item\<close> filled with \<open>-1.0\<close>. The
  arithmetic is kept as the source writes it; it is elementwise.
\<close>

definition masked_score :: "real \<Rightarrow> real \<Rightarrow> real" where
  "masked_score d s = d * (- 1) + (1 - d) * s"

definition mask_scores :: "real list list \<Rightarrow> real list list \<Rightarrow> real list list" where
  "mask_scores drop_mask user_item = map2 (map2 masked_score) drop_mask user_item"

section \<open>The batch loop (lines 400-430 and 534-560)\<close>

record config =
  valid_batch_size :: nat
  pop_norm :: bool
  use_low_freq_train_items :: bool
  use_mean_relevance :: bool
  use_item_freq_predict :: bool

text \<open>
  \<open>range(0, stop, step)\<close> for a step that is not negative; Python raises ValueError for
  the step 0.
\<close>

function range_from :: "nat \<Rightarrow> nat \<Rightarrow> nat \<Rightarrow> nat list" where
  "range_from start stop step =
     (if 0 < step \<and> start < stop then start # range_from (start + step) stop step else [])"
  by pat_completeness auto
termination
  by (relation "measure (\<lambda>(start, stop, step). stop - start)") auto

declare range_from.simps [simp del]

definition py_range :: "nat \<Rightarrow> nat \<Rightarrow> error + nat list" where
  "py_range stop step = (if step = 0 then Inl ValueError else Inr (range_from 0 stop step))"

text \<open>\<open>xs[ix_start:ix_end]\<close> and \<open>df.iloc[ix_start:ix_end]\<close>.\<close>

definition slice :: "'a list \<Rightarrow> nat \<Rightarrow> nat \<Rightarrow> 'a list" where
  "slice xs ix_start ix_end = take (ix_end - ix_start) (drop ix_start xs)"

text \<open>
  The loop over the batch starts. Its body returns what the batch appends to
  \<open>s_predicted_users\<close> and \<open>s_predicted_items\<close>; an exception in a batch ends the call.
\<close>

fun batch_loop ::
  "(nat \<Rightarrow> error + user_id list \<times> item_id list) \<Rightarrow> nat list \<Rightarrow>
   user_id list \<times> item_id list \<Rightarrow> error + user_id list \<times> item_id list" where
  "batch_loop body [] acc = Inr acc"
| "batch_loop body (ix_start # rest) acc =
     (case body ix_start of
        Inl e \<Rightarrow> Inl e
      | Inr new \<Rightarrow> batch_loop body rest (fst acc @ fst new, snd acc @ snd new))"

text \<open>
  \<open>pd.DataFrame({'user_id': s_predicted_users, 'item_id': s_predicted_items})\<close>: the rows
  of the result; pandas raises ValueError for columns of different lengths.
\<close>

definition data_frame :: "user_id list \<Rightarrow> item_id list \<Rightarrow> error + (user_id \<times> item_id) list" where
  "data_frame s_predicted_users s_predicted_items =
     (if length s_predicted_users = length s_predicted_items
      then Inr (zip s_predicted_users s_predicted_items) else Inl ValueError)"

section \<open>StoriesRecModel (lines 114-125, 206-223, 378-430)\<close>

datatype activation = Cosine | Sigmoid

text \<open>\<open>torch.sigmoid\<close>. The exponential has no code equation: the definition is used in proofs only.\<close>

definition sigmoid :: "real \<Rightarrow> real" where
  "sigmoid t = 1 / (1 + exp (- t))"

declare sigmoid_def [code del]

text \<open>\<open>Activation.forward\<close>, lines 120-124.\<close>

definition activation_forward :: "activation \<Rightarrow> real \<Rightarrow> real" where
  "activation_forward a t = (case a of Cosine \<Rightarrow> (t + 1) / 2 | Sigmoid \<Rightarrow> sigmoid t)"

text \<open>
  The model's state. The encoders are the dictionaries from external identifiers to
  embedding indices; \<open>df_users\<close> and \<open>df_items\<close> are the feature tables, read through
  \<open>reindex\<close>, which gives a row of NaN (\<open>None\<close>) for an identifier the table does not
  have. \<open>embed_user\<close> and \<open>embed_item\<close> are the two \<open>MixedEmbedding\<close> modules with their
  trained weights: each maps a feature row and an index to a hidden vector, row by row.
  The lookup of an index in the embedding table of a module (line 100) raises IndexError
  for an index that is not a row of the table; the functions here are total, and the
  statements that assert a result assume that the indices are rows (\<open>indices_in_range\<close>
  below).
\<close>

record stories_rec_model =
  activation :: activation
  user_encoder :: "user_id \<rightharpoonup> int"
  item_encoder :: "item_id \<rightharpoonup> int"
  df_users :: "user_id \<rightharpoonup> real list"
  df_items :: "item_id \<rightharpoonup> real list"
  embed_user :: "real list option \<Rightarrow> int \<Rightarrow> real list"
  embed_item :: "real list option \<Rightarrow> int \<Rightarrow> real list"

text \<open>\<open>encoder.get(key, 0)\<close>, and the casts \<open>astype(np.int16)\<close> and \<open>astype(np.int32)\<close>.\<close>

definition dict_get :: "('k \<rightharpoonup> 'v) \<Rightarrow> 'k \<Rightarrow> 'v \<Rightarrow> 'v" where
  "dict_get d key dflt = (case d key of None \<Rightarrow> dflt | Some v \<Rightarrow> v)"

definition as_int16 :: "int \<Rightarrow> int" where
  "as_int16 v = sint (word_of_int v :: 16 word)"

definition as_int32 :: "int \<Rightarrow> int" where
  "as_int32 v = sint (word_of_int v :: 32 word)"

text \<open>
  Lines 155, 167 and 176: the embedding table of a module has \<open>len(encoder) + 1\<close> rows, so
  that the index 0 of an unknown identifier is always one of them.
\<close>

definition num_embeddings :: "('k \<rightharpoonup> int) \<Rightarrow> nat" where
  "num_embeddings encoder = card (dom encoder) + 1"

text \<open>One entry of \<open>torch.mm(h_user, torch.transpose(h_item, 0, 1))\<close>.\<close>

definition dot :: "real list \<Rightarrow> real list \<Rightarrow> real" where
  "dot a b = sum_list (map2 (*) a b)"

text \<open>Lines 214-221: the masked score matrix of a batch.\<close>

definition batch_user_item ::
  "stories_rec_model \<Rightarrow> real list option list \<Rightarrow> int list \<Rightarrow> real list option list \<Rightarrow>
   int list \<Rightarrow> real list list \<Rightarrow> real list list" where
  "batch_user_item m t_users user_id t_items item_id drop_mask =
     (let h_user = map2 (embed_user m) t_users user_id;
          h_item = map2 (embed_item m) t_items item_id;
          user_item = map (\<lambda>hu. map (\<lambda>hi. activation_forward (activation m) (dot hu hi)) h_item)
                        h_user
      in mask_scores drop_mask user_item)"

text \<open>Lines 213-223, \<open>top_k\<close> being the primitive of line 222.\<close>

definition batch_predict_with ::
  "(real list \<Rightarrow> nat \<Rightarrow> error + nat list) \<Rightarrow> stories_rec_model \<Rightarrow> real list option list \<Rightarrow>
   int list \<Rightarrow> real list option list \<Rightarrow> int list \<Rightarrow> real list list \<Rightarrow> nat \<Rightarrow>
   error + nat list list" where
  "batch_predict_with top_k m t_users user_id t_items item_id drop_mask k =
     topk_rows_with top_k (batch_user_item m t_users user_id t_items item_id drop_mask) k"

definition batch_predict ::
  "stories_rec_model \<Rightarrow> real list option list \<Rightarrow> int list \<Rightarrow> real list option list \<Rightarrow>
   int list \<Rightarrow> real list list \<Rightarrow> nat \<Rightarrow> error + nat list list" where
  "batch_predict = batch_predict_with topk"

text \<open>Lines 402-428: the body of the loop, for the batch that starts at \<open>ix_start\<close>.\<close>

definition stories_batch ::
  "stories_rec_model \<Rightarrow> config \<Rightarrow> ((user_id \<times> item_id) \<times> nat) list \<Rightarrow> user_id list \<Rightarrow>
   item_id list \<Rightarrow> real list option list \<Rightarrow> int list \<Rightarrow> nat \<Rightarrow> nat \<Rightarrow>
   error + user_id list \<times> item_id list" where
  "stories_batch m cfg df_log_exclude id_users id_items t_items t_item_id k ix_start =
     (let ix_end = ix_start + valid_batch_size cfg;
          batch_id_users = slice id_users ix_start ix_end;
          t_batch_users = map (df_users m) batch_id_users;
          t_user_id = map (\<lambda>user_id. as_int32 (dict_get (user_encoder m) user_id 0)) batch_id_users
      in case build_drop_mask df_log_exclude batch_id_users id_items of
           Inl e \<Rightarrow> Inl e
         | Inr t_drop_mask \<Rightarrow>
             (case batch_predict m t_batch_users t_user_id t_items t_item_id t_drop_mask k of
                Inl e \<Rightarrow> Inl e
              | Inr nn_predict \<Rightarrow>
                  Inr (concat (map (replicate k) batch_id_users),
                       map (\<lambda>j. id_items ! j) (concat nn_predict))))"

text \<open>Lines 378-430.\<close>

definition StoriesRecModel_model_predict_top_k ::
  "stories_rec_model \<Rightarrow> config \<Rightarrow> log_row list \<Rightarrow> user_id list \<Rightarrow> item_id list \<Rightarrow> nat \<Rightarrow>
   error + (user_id \<times> item_id) list" where
  "StoriesRecModel_model_predict_top_k m cfg df_log_exclude id_users id_items k =
     (let df_log_exclude = groupby_count df_log_exclude;
          t_items = map (df_items m) id_items;
          t_item_id = map (\<lambda>item_id. as_int16 (dict_get (item_encoder m) item_id 0)) id_items
      in case py_range (length id_users) (valid_batch_size cfg) of
           Inl e \<Rightarrow> Inl e
         | Inr starts \<Rightarrow>
             (case batch_loop
                     (stories_batch m cfg df_log_exclude id_users id_items t_items t_item_id k)
                     starts ([], []) of
                Inl e \<Rightarrow> Inl e
              | Inr (s_predicted_users, s_predicted_items) \<Rightarrow>
                  data_frame s_predicted_users s_predicted_items))"

section \<open>PopularModel (lines 433-486 and 509-560)\<close>

text \<open>
  The state of a trained model: \<open>alpha\<close> and \<open>beta\<close> of the constructor, the series
  \<open>items_popularity\<close> that \<open>model_train\<close> stores (its index and its values, in order), and
  \<open>avg_num_items\<close>, the ceiling of the mean number of log rows per user; \<open>None\<close> is the
  NaN that the mean of an empty training log gives.
\<close>

record popular_model =
  alpha :: real
  beta :: real
  items_popularity :: "(item_id \<times> real) list"
  avg_num_items :: "nat option"

text \<open>
  \<open>groupby(key)[column]\<close> followed by an aggregation: one row for every distinct key, in
  sorted key order, with the aggregate of the column values of the rows of the key.
\<close>

definition groupby_agg :: "('k :: linorder \<times> 'v) list \<Rightarrow> ('v list \<Rightarrow> 'a) \<Rightarrow> ('k \<times> 'a) list" where
  "groupby_agg rows agg =
     map (\<lambda>key. (key, agg (map snd (filter (\<lambda>(key', v). key' = key) rows))))
       (sort (remdups (map fst rows)))"

definition series_mean :: "real list \<Rightarrow> real" where
  "series_mean vs = sum_list vs / real (length vs)"

text \<open>
  Lines 446-451: with \<open>use_low_freq_train_items\<close> the training log keeps the rows of the
  users after the first \<open>int(_user_total * 0.95)\<close> of \<open>value_counts\<close>. \<open>value_counts\<close>, the
  pandas operation that lists the distinct users with their numbers of rows, the most
  frequent first, is a parameter: pandas does not fix its order among equal numbers.
  \<open>fl\<close> is the rounding of a real number to a float.
\<close>

definition low_freq_train_items ::
  "(log_row list \<Rightarrow> (user_id \<times> nat) list) \<Rightarrow> (real \<Rightarrow> real) \<Rightarrow> config \<Rightarrow> log_row list \<Rightarrow>
   log_row list" where
  "low_freq_train_items value_counts fl cfg df_log =
     (if use_low_freq_train_items cfg
      then (let df_user_items = value_counts df_log;
                user_total = length df_user_items;
                low_freq_users =
                  drop (nat (py_int (fl (real user_total * fl (95 / 100))))) (map fst df_user_items)
            in filter (\<lambda>(u, i, r). u \<in> set low_freq_users) df_log)
      else df_log)"

text \<open>
  \<open>PopularModel(device, config, alpha, beta)\<close> followed by \<open>model_train(df_log)\<close>, lines
  434-471: the trained model. The popularity of an item is, with \<open>use_mean_relevance\<close>,
  the sum over the users of the positive mean relevances of the (user, item) pairs; with
  \<open>use_item_freq_predict\<close>, the mean relevance of the rows of the item; otherwise the
  number of rows of the item whose relevance is 1. The mean number of rows per user is
  the number of rows divided by the number of users; its ceiling is taken in exact
  arithmetic, which agrees with the float for a log of fewer than \<open>2 ^ 53\<close> rows.
\<close>

definition model_train ::
  "(log_row list \<Rightarrow> (user_id \<times> nat) list) \<Rightarrow> (real \<Rightarrow> real) \<Rightarrow> config \<Rightarrow> real \<Rightarrow> real \<Rightarrow>
   log_row list \<Rightarrow> popular_model" where
  "model_train value_counts fl cfg alpha_arg beta_arg df_log =
     (let df_log = low_freq_train_items value_counts fl cfg df_log;
          df_popularity =
            (if use_mean_relevance cfg
             then (let df_popularity =
                         groupby_agg (map (\<lambda>(u, i, r). ((u, i), r)) df_log) series_mean;
                       df_popularity = filter (\<lambda>(key, r). 0 < r) df_popularity
                   in groupby_agg (map (\<lambda>((u, i), r). (i, r)) df_popularity) sum_list)
             else if use_item_freq_predict cfg
             then groupby_agg (map (\<lambda>(u, i, r). (i, r)) df_log) series_mean
             else (let df_popularity = filter (\<lambda>(u, i, r). r = 1) df_log
                   in groupby_agg (map (\<lambda>(u, i, r). (i, u)) df_popularity)
                        (\<lambda>users. real (length users))));
          per_user = groupby_agg (map (\<lambda>(u, i, r). (u, i)) df_log) length
      in \<lparr>alpha = alpha_arg, beta = beta_arg, items_popularity = df_popularity,
          avg_num_items =
            (if per_user = [] then None
             else Some (nat \<lceil>real (sum_list (map snd per_user)) / real (length per_user)\<rceil>))\<rparr>)"

text \<open>
  Lines 482-486. A denominator \<open>count_sum + beta\<close> that is zero, for which pandas gives an
  infinity or NaN, is outside the embedding: the statements about scores assume that it
  is not zero.
\<close>

definition get_item_scores :: "popular_model \<Rightarrow> (item_id \<times> real) list" where
  "get_item_scores m =
     (let df_items_to_rec = items_popularity m;
          count_sum = sum_list (map snd df_items_to_rec)
      in map (\<lambda>(item, c). (item, (c + alpha m) / (count_sum + beta m))) df_items_to_rec)"

text \<open>
  \<open>Series.reindex(index=id_items).fillna(0.0)\<close>: the series over \<open>id_items\<close>, 0.0 for a
  label the series does not have; pandas raises ValueError when the index of the series
  has a label twice.
\<close>

definition reindex_fillna ::
  "(item_id \<times> real) list \<Rightarrow> item_id list \<Rightarrow> error + (item_id \<times> real) list" where
  "reindex_fillna series id_items =
     (if distinct (map fst series)
      then Inr (map (\<lambda>item. (item, case map_of series item of None \<Rightarrow> 0 | Some v \<Rightarrow> v)) id_items)
      else Inl ValueError)"

text \<open>
  \<open>Series.sort_values(ascending=False)\<close> returns the rows of the series in descending
  order of their values. pandas does not fix the order of rows with equal values (its
  default sort is not stable), so the operation is a parameter of the functions that
  call it. \<open>sort_values_desc\<close> is one such order, the one that keeps equal values in the
  order they have in the series; it is used where a statement needs a concrete order.
\<close>

definition sort_values_desc :: "(item_id \<times> real) list \<Rightarrow> (item_id \<times> real) list" where
  "sort_values_desc series = sort_key (\<lambda>(item, v). - v) series"

text \<open>\<open>Series.loc[labels]\<close>: for every label, in order, all rows of the series with it.\<close>

definition loc :: "(item_id \<times> real) list \<Rightarrow> item_id list \<Rightarrow> (item_id \<times> real) list" where
  "loc series labels = concat (map (\<lambda>l. filter (\<lambda>(item, v). item = l) series) labels)"

text \<open>
  Lines 522-526: the restricted candidate list, the first \<open>int(k + avg_num_items)\<close> items
  in descending score order, \<open>sort_values\<close> being the sorting operation. \<open>int\<close> of NaN
  raises ValueError.
\<close>

definition popular_candidates_with ::
  "((item_id \<times> real) list \<Rightarrow> (item_id \<times> real) list) \<Rightarrow> popular_model \<Rightarrow> item_id list \<Rightarrow> nat \<Rightarrow>
   error + item_id list \<times> (item_id \<times> real) list" where
  "popular_candidates_with sort_values m id_items k =
     (case reindex_fillna (get_item_scores m) id_items of
        Inl e \<Rightarrow> Inl e
      | Inr df_items_to_rec \<Rightarrow>
          (case avg_num_items m of
             None \<Rightarrow> Inl ValueError
           | Some a \<Rightarrow>
               (let id_items' = map fst (take (k + a) (sort_values df_items_to_rec))
                in Inr (id_items', loc df_items_to_rec id_items'))))"

text \<open>Line 549: \<open>item_predict_row.expand(n, item_predict_row.size()[1])\<close>, the row n times.\<close>

definition expand_row :: "real list \<Rightarrow> nat \<Rightarrow> real list list" where
  "expand_row row n = replicate n row"

text \<open>
  Lines 536-558: the body of the loop. The score row of every user of the batch is
  \<open>item_predict_row\<close>. For candidate items without repetition the row and the mask have
  the same length. A repeated candidate item gives the series of line 526 more rows than
  the mask has columns, and the elementwise arithmetic of line 551 raises RuntimeError
  (the library would still broadcast a mask of a single column; that case is not told
  apart here, and the statements about this model are about lists without repetition).
\<close>

definition popular_batch_with ::
  "(real list \<Rightarrow> nat \<Rightarrow> error + nat list) \<Rightarrow> config \<Rightarrow> ((user_id \<times> item_id) \<times> nat) list \<Rightarrow>
   user_id list \<Rightarrow> item_id list \<Rightarrow> real list \<Rightarrow> nat \<Rightarrow> nat \<Rightarrow> error + user_id list \<times> item_id list" where
  "popular_batch_with top_k cfg df_log_exclude id_users id_items item_predict_row k ix_start =
     (let ix_end = ix_start + valid_batch_size cfg;
          batch_id_users = slice id_users ix_start ix_end
      in case build_drop_mask df_log_exclude batch_id_users id_items of
           Inl e \<Rightarrow> Inl e
         | Inr t_drop_mask \<Rightarrow>
             (let user_item = expand_row item_predict_row (length batch_id_users)
              in if length item_predict_row \<noteq> length id_items then Inl RuntimeError
                 else (case topk_rows_with top_k (mask_scores t_drop_mask user_item) k of
                         Inl e \<Rightarrow> Inl e
                       | Inr nn_predict \<Rightarrow>
                           Inr (concat (map (replicate k) batch_id_users),
                                map (\<lambda>j. id_items ! j) (concat nn_predict)))))"

definition popular_batch ::
  "config \<Rightarrow> ((user_id \<times> item_id) \<times> nat) list \<Rightarrow> user_id list \<Rightarrow> item_id list \<Rightarrow>
   real list \<Rightarrow> nat \<Rightarrow> nat \<Rightarrow> error + user_id list \<times> item_id list" where
  "popular_batch = popular_batch_with topk"

text \<open>
  Lines 509-560, \<open>sort_values\<close> being the sorting operation of line 525 and \<open>top_k\<close> the
  primitive of line 553.
\<close>

definition PopularModel_model_predict_top_k_with ::
  "((item_id \<times> real) list \<Rightarrow> (item_id \<times> real) list) \<Rightarrow> (real list \<Rightarrow> nat \<Rightarrow> error + nat list) \<Rightarrow>
   popular_model \<Rightarrow> config \<Rightarrow> log_row list \<Rightarrow> user_id list \<Rightarrow> item_id list \<Rightarrow> nat \<Rightarrow>
   error + (user_id \<times> item_id) list" where
  "PopularModel_model_predict_top_k_with sort_values top_k m cfg df_log_exclude id_users id_items k =
     (let df_log_exclude = groupby_count df_log_exclude
      in case popular_candidates_with sort_values m id_items k of
           Inl e \<Rightarrow> Inl e
         | Inr (id_items, df_items_to_rec) \<Rightarrow>
             (let item_predict_row = map snd df_items_to_rec
              in case py_range (length id_users) (valid_batch_size cfg) of
                   Inl e \<Rightarrow> Inl e
                 | Inr starts \<Rightarrow>
                     (case batch_loop
                             (popular_batch_with top_k cfg df_log_exclude id_users id_items
                                item_predict_row k)
                             starts ([], []) of
                        Inl e \<Rightarrow> Inl e
                      | Inr (s_predicted_users, s_predicted_items) \<Rightarrow>
                          data_frame s_predicted_users s_predicted_items)))"

definition PopularModel_model_predict_top_k ::
  "popular_model \<Rightarrow> config \<Rightarrow> log_row list \<Rightarrow> user_id list \<Rightarrow> item_id list \<Rightarrow> nat \<Rightarrow>
   error + (user_id \<times> item_id) list" where
  "PopularModel_model_predict_top_k =
     PopularModel_model_predict_top_k_with sort_values_desc topk"

section \<open>ALSModel (lines 673-721)\<close>









section \<open>DropoutTrx (dropout_trx.py, lines 21-27)\<close>

text \<open>
  \<open>np.random.choice(a, size=size, replace=False)\<close>: the first \<open>sz\<close> (\<open>size\<close>) entries of a random
  permutation of \<open>0, ..., a - 1\<close>. The permutation that the generator draws is the
  argument \<open>perm\<close>. numpy raises ValueError for a negative size and for a sample larger
  than the population.
\<close>

definition random_choice :: "nat \<Rightarrow> int \<Rightarrow> nat list \<Rightarrow> error + nat list" where
  "random_choice a sz perm =
     (if sz < 0 \<or> int a < sz then Inl ValueError else Inr (take (nat sz) perm))"

text \<open>
  A Python float is a binary64 number, and every float operation rounds its exact result
  to the nearest binary64 number, ties to the even significand. For a result in the
  normal range that is: with \<open>e\<close> the binary exponent of \<open>x\<close>, the multiple of
  \<open>2 ^ (e - 52)\<close> nearest to \<open>x\<close>.
\<close>

definition round_half_even :: "real \<Rightarrow> int" where
  "round_half_even q =
     (if q - of_int \<lfloor>q\<rfloor> < 1 / 2 then \<lfloor>q\<rfloor>
      else if 1 / 2 < q - of_int \<lfloor>q\<rfloor> then \<lfloor>q\<rfloor> + 1
      else if even \<lfloor>q\<rfloor> then \<lfloor>q\<rfloor> else \<lfloor>q\<rfloor> + 1)"

definition binary64 :: "real \<Rightarrow> real" where
  "binary64 x =
     (if x = 0 then 0
      else sgn x * of_int (round_half_even (\<bar>x\<bar> / 2 powr (of_int \<lfloor>log 2 \<bar>x\<bar>\<rfloor> - 52)))
             * 2 powr (of_int \<lfloor>log 2 \<bar>x\<bar>\<rfloor> - 52))"

text \<open>
  Lines 21-27. The size of the sample is \<open>int(seq_len * (1 - self.trx_dropout) + 1)\<close>,
  three float operations; \<open>fl\<close> is the rounding of a float operation: \<open>binary64\<close> for the
  program as it runs, the identity for exact arithmetic.
\<close>

definition get_idx :: "(real \<Rightarrow> real) \<Rightarrow> real \<Rightarrow> nat \<Rightarrow> nat list \<Rightarrow> error + nat list" where
  "get_idx fl trx_dropout seq_len perm =
     (if 0 < trx_dropout \<and> 0 < seq_len
      then (case random_choice seq_len
                   (py_int (fl (fl (real seq_len * fl (1 - trx_dropout)) + 1))) perm of
              Inl e \<Rightarrow> Inl e
            | Inr idx \<Rightarrow> Inr (sort idx))
      else Inr [0..<seq_len])"

section \<open>Notions used in the statements\<close>

text \<open>A pair is excluded when some row of the exclusion log has it, whatever its relevance.\<close>

definition excluded :: "log_row list \<Rightarrow> user_id \<Rightarrow> item_id \<Rightarrow> bool" where
  "excluded df u i = ((u, i) \<in> set (map (\<lambda>(u, i, r). (u, i)) df))"

text \<open>The mask row of a user over a list of candidate items.\<close>

definition mask_row :: "log_row list \<Rightarrow> item_id list \<Rightarrow> user_id \<Rightarrow> real list" where
  "mask_row df id_items u = map (\<lambda>i. if excluded df u i then 1 else 0) id_items"

text \<open>
  The raw score of a (user, item) pair under the learned-embedding model: the activation
  of the product of the two hidden vectors, each computed from the feature row and the
  encoded index of the identifier.
\<close>

definition stories_score :: "stories_rec_model \<Rightarrow> user_id \<Rightarrow> item_id \<Rightarrow> real" where
  "stories_score m u i =
     activation_forward (activation m)
       (dot (embed_user m (df_users m u) (as_int32 (dict_get (user_encoder m) u 0)))
            (embed_item m (df_items m i) (as_int16 (dict_get (item_encoder m) i 0))))"

text \<open>
  The encoded indices of the users and of the items, after the casts of lines 395 and
  409, are rows of the embedding tables of the two modules: the condition under which
  the lookups of line 100 do not raise.
\<close>

definition indices_in_range :: "stories_rec_model \<Rightarrow> user_id list \<Rightarrow> item_id list \<Rightarrow> bool" where
  "indices_in_range m id_users id_items =
     ((\<forall>u\<in>set id_users.
         0 \<le> as_int32 (dict_get (user_encoder m) u 0)
         \<and> as_int32 (dict_get (user_encoder m) u 0) < int (num_embeddings (user_encoder m)))
      \<and> (\<forall>i\<in>set id_items.
         0 \<le> as_int16 (dict_get (item_encoder m) i 0)
         \<and> as_int16 (dict_get (item_encoder m) i 0) < int (num_embeddings (item_encoder m))))"

text \<open>The combined (masked) score row of a user under the learned-embedding model.\<close>

definition stories_row ::
  "stories_rec_model \<Rightarrow> log_row list \<Rightarrow> item_id list \<Rightarrow> user_id \<Rightarrow> real list" where
  "stories_row m df id_items u =
     map2 masked_score (mask_row df id_items u) (map (stories_score m u) id_items)"

text \<open>
  The score of a candidate item under the popularity model, as \<open>reindex\<close> and \<open>fillna\<close>
  read it from the item scores, and the combined score row of a user.
\<close>

definition popular_score :: "popular_model \<Rightarrow> item_id \<Rightarrow> real" where
  "popular_score m i = (case map_of (get_item_scores m) i of None \<Rightarrow> 0 | Some v \<Rightarrow> v)"

definition popular_row ::
  "popular_model \<Rightarrow> log_row list \<Rightarrow> item_id list \<Rightarrow> user_id \<Rightarrow> real list" where
  "popular_row m df id_items u =
     map2 masked_score (mask_row df id_items u) (map (popular_score m) id_items)"

text \<open>
  The interaction count of an item in a training log: the number of its rows with the
  relevance 1.
\<close>

definition interaction_count :: "log_row list \<Rightarrow> item_id \<Rightarrow> nat" where
  "interaction_count df_log item = length (filter (\<lambda>(u, i, r). i = item \<and> r = 1) df_log)"



text \<open>
  A list of positions is a top-k selection of a score row: k distinct positions of the
  row, in descending order of score, and no position left out scores higher than a
  selected one. Nothing is said about the order or the choice among equal scores.
\<close>

definition top_k_of :: "real list \<Rightarrow> nat \<Rightarrow> nat list \<Rightarrow> bool" where
  "top_k_of r k idx =
     (length idx = k \<and> distinct idx \<and> set idx \<subseteq> {..<length r}
      \<and> sorted_wrt (\<lambda>a b. r ! b \<le> r ! a) idx
      \<and> (\<forall>j<length r. j \<notin> set idx \<longrightarrow> (\<forall>i\<in>set idx. r ! j \<le> r ! i)))"

text \<open>
  Modelled from the spec: what sections 4.4 and 8 of the specification require of the
  selection primitive whatever its order among equal scores: for a k that is not larger
  than the row it returns a top-k selection of the row, and it refuses a larger k.
\<close>

definition selection_primitive :: "(real list \<Rightarrow> nat \<Rightarrow> error + nat list) \<Rightarrow> bool" where
  "selection_primitive top_k =
     (\<forall>r k. if length r < k then top_k r k = Inl RuntimeError
            else (\<exists>idx. top_k r k = Inr idx \<and> top_k_of r k idx))"


text \<open>
  The order of the positions of a score row in which top-k extraction returns them:
  the higher score first, and of two equal scores the lower position first.
\<close>

definition ranks_before :: "real list \<Rightarrow> nat \<Rightarrow> nat \<Rightarrow> bool" where
  "ranks_before r a b = (r ! b < r ! a \<or> (r ! a = r ! b \<and> a < b))"

text \<open>
  The common form of the two loop bodies, once the mask and the scores of a batch are
  written row by row: top-k extraction on the rows of the users of the batch.
\<close>

definition rows_batch ::
  "(user_id \<Rightarrow> real list) \<Rightarrow> nat \<Rightarrow> user_id list \<Rightarrow> item_id list \<Rightarrow> nat \<Rightarrow> nat \<Rightarrow>
   error + user_id list \<times> item_id list" where
  "rows_batch row b id_users id_items k ix_start =
     (let batch_id_users = slice id_users ix_start (ix_start + b)
      in case topk_rows (map row batch_id_users) k of
           Inl e \<Rightarrow> Inl e
         | Inr nn_predict \<Rightarrow>
             Inr (concat (map (replicate k) batch_id_users),
                  map (\<lambda>j. id_items ! j) (concat nn_predict)))"

definition rows_batch_with ::
  "(real list \<Rightarrow> nat \<Rightarrow> error + nat list) \<Rightarrow> (user_id \<Rightarrow> real list) \<Rightarrow> nat \<Rightarrow> user_id list \<Rightarrow>
   item_id list \<Rightarrow> nat \<Rightarrow> nat \<Rightarrow> error + user_id list \<times> item_id list" where
  "rows_batch_with top_k row b id_users id_items k ix_start =
     (let batch_id_users = slice id_users ix_start (ix_start + b)
      in case topk_rows_with top_k (map row batch_id_users) k of
           Inl e \<Rightarrow> Inl e
         | Inr nn_predict \<Rightarrow>
             Inr (concat (map (replicate k) batch_id_users),
                  map (\<lambda>j. id_items ! j) (concat nn_predict)))"

text \<open>The recommendations of one user: the items at the top-k positions of the row.\<close>

definition user_top_k ::
  "(user_id \<Rightarrow> real list) \<Rightarrow> item_id list \<Rightarrow> nat \<Rightarrow> user_id \<Rightarrow> (user_id \<times> item_id) list" where
  "user_top_k row id_items k u = map (\<lambda>j. (u, id_items ! j)) (take k (argsort_desc (row u)))"

section \<open>Concrete scenarios\<close>

text \<open>
  A learned-embedding model over one known user and three known items whose raw scores
  for that user are 0.9, 0.5 and 0.1 (the cosine activation of the products 0.8, 0 and
  -0.8), as in the scenario of the specification; every unknown item scores 0.1.
\<close>

definition scenario_model :: stories_rec_model where
  "scenario_model =
     \<lparr>activation = Cosine,
      user_encoder = [1 \<mapsto> 1],
      item_encoder = [1 \<mapsto> 1, 2 \<mapsto> 2, 3 \<mapsto> 3],
      df_users = Map.empty,
      df_items = Map.empty,
      embed_user = (\<lambda>features index. [1]),
      embed_item = (\<lambda>features index.
        if index = 1 then [4 / 5] else if index = 2 then [0] else [- 4 / 5])\<rparr>"

definition scenario_config :: "nat \<Rightarrow> config" where
  "scenario_config b =
     \<lparr>valid_batch_size = b, pop_norm = False, use_low_freq_train_items = False,
      use_mean_relevance = False, use_item_freq_predict = False\<rparr>"

text \<open>
  The popularity model of the scenario of the specification: alpha = beta = 1000, the
  popularity 10 for item 1 and 0 for item 2, and one item per user on average.
\<close>

definition scenario_popular :: popular_model where
  "scenario_popular =
     \<lparr>alpha = 1000, beta = 1000, items_popularity = [(1, 10), (2, 0)], avg_num_items = Some 1\<rparr>"

text \<open>
  The scenario of the specification as a training log: ten users with one row of
  relevance 1 for item 1 each, the first of them with a row of relevance 0 for item 2,
  so that the interaction counts are 10 for item 1 and 0 for item 2; and the model that
  the default training gives for it with alpha = beta = 1000. \<open>value_counts_by_user\<close> is
  a \<open>value_counts\<close> operation that lists equal numbers in ascending order of the user.
\<close>

definition scenario_log :: "log_row list" where
  "scenario_log = map (\<lambda>u. (u, 1, 1)) [1..<11] @ [(1, 2, 0)]"

definition value_counts_by_user :: "log_row list \<Rightarrow> (user_id \<times> nat) list" where
  "value_counts_by_user df_log =
     sort_key (\<lambda>(u, c). - int c) (groupby_agg (map (\<lambda>(u, i, r). (u, i)) df_log) length)"

definition scenario_trained :: popular_model where
  "scenario_trained =
     model_train value_counts_by_user (\<lambda>x. x) (scenario_config 10) 1000 1000 scenario_log"

text \<open>
  A popularity model with a negative \<open>alpha\<close>: the constructor accepts any numbers.
\<close>

definition negative_alpha_popular :: popular_model where
  "negative_alpha_popular =
     \<lparr>alpha = - 3000, beta = 1000, items_popularity = [(1, 10), (2, 0)], avg_num_items = Some 1\<rparr>"


section \<open>Facts about top-k extraction\<close>

lemma insort_key_ranks:
  fixes f :: "nat \<Rightarrow> real"
  assumes "sorted_wrt (\<lambda>a b. f a < f b \<or> (f a = f b \<and> a < b)) l" and "\<forall>y\<in>set l. x < y"
  shows "sorted_wrt (\<lambda>a b. f a < f b \<or> (f a = f b \<and> a < b)) (insort_key f x l)"
  using assms
proof (induction l)
  case Nil
  then show ?case by simp
next
  case (Cons y ys)
  show ?case
  proof (cases "f x \<le> f y")
    case True
    have "f y \<le> f z" if "z \<in> set ys" for z
      using Cons.prems(1) that by auto
    with True Cons.prems show ?thesis by force
  next
    case False
    with Cons show ?thesis by (auto simp: set_insort_key)
  qed
qed

lemma sort_key_ranks:
  fixes f :: "nat \<Rightarrow> real"
  assumes "sorted_wrt (<) xs"
  shows "sorted_wrt (\<lambda>a b. f a < f b \<or> (f a = f b \<and> a < b)) (sort_key f xs)"
  using assms
proof (induction xs)
  case Nil
  then show ?case by simp
next
  case (Cons x xs)
  then show ?case by (simp add: insort_key_ranks)
qed

lemma argsort_desc_ranks: "sorted_wrt (ranks_before r) (argsort_desc r)"
proof -
  have "sorted_wrt (<) [0..<length r]"
    by (simp add: sorted_wrt_iff_nth_less)
  from sort_key_ranks [OF this, of "\<lambda>j. - (r ! j)"]
  have "sorted_wrt (\<lambda>a b. - (r ! a) < - (r ! b) \<or> (- (r ! a) = - (r ! b) \<and> a < b)) (argsort_desc r)"
    by (simp add: argsort_desc_def)
  moreover have "(\<lambda>a b. - (r ! a) < - (r ! b) \<or> (- (r ! a) = - (r ! b) \<and> a < b)) = ranks_before r"
    by (auto simp: ranks_before_def fun_eq_iff)
  ultimately show ?thesis by simp
qed

lemma set_argsort_desc [simp]: "set (argsort_desc r) = {..<length r}"
  by (auto simp: argsort_desc_def)

lemma length_argsort_desc [simp]: "length (argsort_desc r) = length r"
  by (simp add: argsort_desc_def)

lemma distinct_argsort_desc [simp]: "distinct (argsort_desc r)"
  by (simp add: argsort_desc_def)

lemma topk_Inr: "k \<le> length r \<Longrightarrow> topk r k = Inr (take k (argsort_desc r))"
  by (simp add: topk_def)

lemma topk_Inl: "length r < k \<Longrightarrow> topk r k = Inl RuntimeError"
  by (simp add: topk_def)


section \<open>Facts about the batch loop\<close>

lemma topk_rows_simps [simp]:
  "topk_rows [] k = Inr []"
  "topk_rows (r # rs) k =
     (case topk r k of
        Inl e \<Rightarrow> Inl e
      | Inr idx \<Rightarrow> (case topk_rows rs k of Inl e \<Rightarrow> Inl e | Inr rest \<Rightarrow> Inr (idx # rest)))"
  unfolding topk_rows_def by simp_all

lemma batch_predict_topk_rows:
  "batch_predict m t_users user_id t_items item_id drop_mask k =
     topk_rows (batch_user_item m t_users user_id t_items item_id drop_mask) k"
  by (simp add: batch_predict_def batch_predict_with_def topk_rows_def)

lemma topk_rows_Inr:
  assumes "\<forall>r\<in>set rows. length r = n" and "k \<le> n"
  shows "topk_rows rows k = Inr (map (\<lambda>r. take k (argsort_desc r)) rows)"
  using assms by (induction rows) (simp_all add: topk_Inr)

lemma topk_rows_Inl:
  assumes "\<forall>r\<in>set rows. length r = n" and "n < k" and "rows \<noteq> []"
  shows "topk_rows rows k = Inl RuntimeError"
  using assms by (cases rows) (simp_all add: topk_Inl)

lemma slice_take_drop: "slice xs s (s + b) = take b (drop s xs)"
  by (simp add: slice_def)

lemma rows_batch_Inr:
  assumes "\<forall>u. length (row u) = n" and "k \<le> n"
  shows "rows_batch row b us items k s =
           Inr (concat (map (replicate k) (take b (drop s us))),
                map (\<lambda>j. items ! j)
                  (concat (map (\<lambda>u. take k (argsort_desc (row u))) (take b (drop s us)))))"
proof -
  have "topk_rows (map row (take b (drop s us))) k =
          Inr (map (\<lambda>r. take k (argsort_desc r)) (map row (take b (drop s us))))"
    using assms by (intro topk_rows_Inr [where n = n]) auto
  then show ?thesis
    by (simp add: rows_batch_def slice_take_drop comp_def Let_def)
qed

lemma rows_batch_Inl:
  assumes "\<forall>u. length (row u) = n" and "n < k" and "0 < b" and "s < length us"
  shows "rows_batch row b us items k s = Inl RuntimeError"
proof -
  have "take b (drop s us) \<noteq> []" using assms by simp
  then have "topk_rows (map row (take b (drop s us))) k = Inl RuntimeError"
    using assms by (intro topk_rows_Inl [where n = n]) auto
  then show ?thesis
    by (simp add: rows_batch_def slice_take_drop)
qed

lemma batch_loop_rows:
  assumes "\<forall>u. length (row u) = n" and "k \<le> n" and "0 < b"
  shows "batch_loop (rows_batch row b us items k) (range_from s (length us) b) acc =
           Inr (fst acc @ concat (map (replicate k) (drop s us)),
                snd acc @ map (\<lambda>j. items ! j)
                  (concat (map (\<lambda>u. take k (argsort_desc (row u))) (drop s us))))"
  using assms
proof (induction s "length us" b arbitrary: acc rule: range_from.induct)
  case (1 s b)
  show ?case
  proof (cases "s < length us")
    case True
    have sp: "drop s us = take b (drop s us) @ drop (s + b) us"
      by (metis add.commute append_take_drop_id drop_drop)
    have r: "range_from s (length us) b = s # range_from (s + b) (length us) b"
      using True "1.prems" by (subst range_from.simps) simp
    have ih: "batch_loop (rows_batch row b us items k) (range_from (s + b) (length us) b) acc' =
           Inr (fst acc' @ concat (map (replicate k) (drop (s + b) us)),
                snd acc' @ map (\<lambda>j. items ! j)
                  (concat (map (\<lambda>u. take k (argsort_desc (row u))) (drop (s + b) us))))" for acc'
      using "1.hyps" [of acc'] True "1.prems" by simp
    have c1: "concat (map (replicate k) (drop s us)) =
                concat (map (replicate k) (take b (drop s us))) @
                concat (map (replicate k) (drop (s + b) us))"
      by (subst sp) simp
    have c2: "concat (map (\<lambda>u. take k (argsort_desc (row u))) (drop s us)) =
                concat (map (\<lambda>u. take k (argsort_desc (row u))) (take b (drop s us))) @
                concat (map (\<lambda>u. take k (argsort_desc (row u))) (drop (s + b) us))"
      by (subst sp) simp
    show ?thesis
      unfolding r c1 c2
      by (simp add: rows_batch_Inr [OF "1.prems"(1,2)] ih)
  next
    case False
    then have "range_from s (length us) b = []"
      by (subst range_from.simps) simp
    with False show ?thesis by simp
  qed
qed

lemma batch_loop_rows_Inl:
  assumes "\<forall>u. length (row u) = n" and "n < k" and "0 < b" and "us \<noteq> []"
  shows "batch_loop (rows_batch row b us items k) (range_from 0 (length us) b) acc = Inl RuntimeError"
proof -
  have "range_from 0 (length us) b = 0 # range_from b (length us) b"
    using assms by (subst range_from.simps) simp
  moreover have "rows_batch row b us items k 0 = Inl RuntimeError"
    using assms by (intro rows_batch_Inl [where n = n]) auto
  ultimately show ?thesis by simp
qed

lemma zip_concat_replicate:
  assumes "\<forall>u\<in>set us. length (f u) = k"
  shows "zip (concat (map (replicate k) us)) (concat (map f us)) =
           concat (map (\<lambda>u. map (Pair u) (f u)) us)"
  using assms
proof (induction us)
  case Nil
  then show ?case by simp
next
  case (Cons u us)
  have "zip (replicate k u) (f u) = map (Pair u) (f u)"
    using Cons.prems by (simp add: zip_replicate1)
  then show ?case using Cons by simp
qed

section \<open>The batch loop for any selection primitive\<close>

lemma take_sort_key_top_k_of:
  assumes "distinct js" and "set js = {..<length r}" and "k \<le> length r"
  shows "top_k_of r k (take k (sort_key (\<lambda>j. - (r ! j)) js))"
proof -
  let ?l = "sort_key (\<lambda>j. - (r ! j)) js"
  have len: "length ?l = length r"
    using distinct_card [OF assms(1)] assms(2) by simp
  have s: "sorted_wrt (\<lambda>a b. r ! b \<le> r ! a) ?l"
    using sorted_sort_key [of "\<lambda>j. - (r ! j)" js] by (simp add: sorted_map)
  have "sorted_wrt (\<lambda>a b. r ! b \<le> r ! a) (take k ?l @ drop k ?l)"
    using s by simp
  then have le: "\<forall>x\<in>set (take k ?l). \<forall>y\<in>set (drop k ?l). r ! y \<le> r ! x"
    unfolding sorted_wrt_append by blast
  have rest: "j \<in> set (drop k ?l)" if "j < length r" and "j \<notin> set (take k ?l)" for j
  proof -
    have "j \<in> set ?l" using that(1) assms(2) by simp
    then have "j \<in> set (take k ?l) \<union> set (drop k ?l)"
      by (metis append_take_drop_id set_append)
    with that(2) show ?thesis by simp
  qed
  show ?thesis
    unfolding top_k_of_def
  proof (intro conjI allI impI ballI)
    show "length (take k ?l) = k" using len assms(3) by simp
    show "distinct (take k ?l)" using assms(1) by simp
    show "set (take k ?l) \<subseteq> {..<length r}"
      using set_take_subset [of k ?l] assms(2) by simp
    show "sorted_wrt (\<lambda>a b. r ! b \<le> r ! a) (take k ?l)"
      using s by (rule sorted_wrt_take)
  next
    fix j i
    assume "j < length r" and "j \<notin> set (take k ?l)" and "i \<in> set (take k ?l)"
    then show "r ! j \<le> r ! i" using le rest by blast
  qed
qed

lemma selection_primitive_topk: "selection_primitive topk"
  unfolding selection_primitive_def
proof (intro allI)
  fix r k
  show "if length r < k then topk r k = Inl RuntimeError
        else (\<exists>idx. topk r k = Inr idx \<and> top_k_of r k idx)"
    using take_sort_key_top_k_of [of "[0..<length r]" r k]
    by (simp add: topk_def argsort_desc_def atLeast0LessThan)
qed

lemma selection_primitive_topk_higher_index_first:
  "selection_primitive topk_higher_index_first"
  unfolding selection_primitive_def
proof (intro allI)
  fix r k
  show "if length r < k then topk_higher_index_first r k = Inl RuntimeError
        else (\<exists>idx. topk_higher_index_first r k = Inr idx \<and> top_k_of r k idx)"
    using take_sort_key_top_k_of [of "rev [0..<length r]" r k]
    by (simp add: topk_higher_index_first_def atLeast0LessThan)
qed

lemma top_k_of_scores:
  assumes "top_k_of r k idx"
  shows "map (\<lambda>j. - (r ! j)) idx = take k (sort (map uminus r))"
proof -
  let ?n = "length r"
  let ?rest = "filter (\<lambda>j. j \<notin> set idx) [0..<?n]"
  let ?f = "\<lambda>j. - (r ! j)"
  have len: "length idx = k" and d: "distinct idx" and sub: "set idx \<subseteq> {..<?n}"
    and s: "sorted_wrt (\<lambda>a b. r ! b \<le> r ! a) idx"
    and out: "\<forall>j<?n. j \<notin> set idx \<longrightarrow> (\<forall>i\<in>set idx. r ! j \<le> r ! i)"
    using assms by (simp_all add: top_k_of_def)
  have se: "set idx = set (filter (\<lambda>j. j \<in> set idx) [0..<?n])"
    using sub by auto
  have d2: "distinct (filter (\<lambda>j. j \<in> set idx) [0..<?n])"
    by simp
  have m1: "mset idx = mset (filter (\<lambda>j. j \<in> set idx) [0..<?n])"
    using set_eq_iff_mset_eq_distinct [OF d d2] se by blast
  have "mset idx + mset ?rest = mset [0..<?n]"
    unfolding m1 mset_filter by (rule multiset_partition [symmetric])
  then have "image_mset ?f (mset idx + mset ?rest) = image_mset ?f (mset [0..<?n])"
    by (rule arg_cong)
  then have "mset (map ?f (idx @ sort_key ?f ?rest)) = mset (map ?f [0..<?n])"
    by (simp only: mset_map mset_append mset_sort image_mset_union)
  also have "map ?f [0..<?n] = map uminus r"
  proof -
    have "map ?f [0..<?n] = map uminus (map ((!) r) [0..<?n])"
      by (simp add: comp_def)
    then show ?thesis by (simp only: map_nth)
  qed
  finally have ms: "mset (map ?f (idx @ sort_key ?f ?rest)) = mset (map uminus r)" .
  have s1: "sorted (map ?f idx)"
    using s by (simp add: sorted_map)
  have s2: "sorted (map ?f (sort_key ?f ?rest))"
    by (rule sorted_sort_key)
  have s3: "\<forall>x\<in>set idx. \<forall>y\<in>set ?rest. ?f x \<le> ?f y"
    using out by auto
  have "sorted (map ?f (idx @ sort_key ?f ?rest))"
    using s1 s2 s3 by (simp add: sorted_append del: sorted_sort_key)
  with ms have "sort (map uminus r) = map ?f (idx @ sort_key ?f ?rest)"
    by (intro properties_for_sort) simp_all
  then show ?thesis using len by simp
qed

lemma top_k_of_same_scores:
  assumes "top_k_of r k idx" and "top_k_of r k idx'"
  shows "map ((!) r) idx = map ((!) r) idx'"
proof -
  have "map uminus (map ((!) r) idx) = map uminus (map ((!) r) idx')"
    using top_k_of_scores [OF assms(1)] top_k_of_scores [OF assms(2)]
    by (simp add: comp_def)
  moreover have "inj (uminus :: real \<Rightarrow> real)" by (simp add: inj_on_def)
  ultimately show ?thesis by (simp only: inj_map_eq_map)
qed

lemma topk_rows_with_InrD:
  assumes "topk_rows_with tk rows k = Inr out"
  shows "length out = length rows \<and> (\<forall>n<length rows. tk (rows ! n) k = Inr (out ! n))"
  using assms
proof (induction rows arbitrary: out)
  case Nil
  then show ?case by simp
next
  case (Cons r rs)
  from Cons.prems obtain idx rest where i: "tk r k = Inr idx"
    and r: "topk_rows_with tk rs k = Inr rest" and o: "out = idx # rest"
    by (auto split: sum.splits)
  from Cons.IH [OF r] have "length rest = length rs"
    and "\<forall>n<length rs. tk (rs ! n) k = Inr (rest ! n)" by simp_all
  with i o show ?case by (auto simp: nth_Cons split: nat.splits)
qed

lemma selection_primitive_InrD:
  assumes "selection_primitive tk" and "tk r k = Inr idx"
  shows "top_k_of r k idx"
  using assms(1) [unfolded selection_primitive_def, rule_format, of r k] assms(2)
  by (auto split: if_splits)











section \<open>Facts about the mask and the two prediction pipelines\<close>

lemma map_fst_groupby_count:
  "map fst (groupby_count df) = sort (remdups (map (\<lambda>(u, i, r). (u, i)) df))"
  by (simp add: groupby_count_def comp_def)

lemma distinct_groupby_count: "distinct (map fst (groupby_count df))"
  by (simp add: map_fst_groupby_count)

lemma fst_set_groupby_count:
  "fst ` set (groupby_count df) = set (map (\<lambda>(u, i, r). (u, i)) df)"
proof -
  have "fst ` set (groupby_count df) = set (map fst (groupby_count df))" by simp
  also have "\<dots> = set (map (\<lambda>(u, i, r). (u, i)) df)"
    unfolding map_fst_groupby_count by simp
  finally show ?thesis .
qed

lemma key_in_groupby_count:
  "((u, i) \<in> fst ` set (groupby_count df)) = excluded df u i"
  unfolding fst_set_groupby_count excluded_def ..

lemma build_drop_mask_groupby:
  "build_drop_mask (groupby_count df) batch id_items = Inr (map (mask_row df id_items) batch)"
proof -
  let ?e = "filter (\<lambda>((u, i), c). u \<in> set batch) (groupby_count df)"
  have keys: "((u, i) \<in> fst ` set ?e) = (excluded df u i \<and> u \<in> set batch)" for u i
    using key_in_groupby_count [of u i df] by force
  show ?thesis
  proof (cases "?e = []")
    case True
    have "mask_row df id_items u = replicate (length id_items) 0" if "u \<in> set batch" for u
    proof -
      have "\<not> excluded df u i" for i
        using keys [of u i] True that by simp
      then show ?thesis by (simp add: mask_row_def map_replicate_const)
    qed
    then have "map (mask_row df id_items) batch =
                 replicate (length batch) (replicate (length id_items) 0)"
      by (simp add: map_replicate_const [symmetric] cong: map_cong)
    with True show ?thesis
      by (simp add: build_drop_mask_def build_drop_mask_with_def)
  next
    case False
    have d: "distinct (map fst ?e)"
      using distinct_groupby_count [of df] by (simp add: distinct_map_filter)
    have "(map_of ?e (u, i) \<noteq> None) = excluded df u i" if "u \<in> set batch" for u i
      using keys [of u i] that by (simp add: map_of_eq_None_iff)
    then have "map (\<lambda>u. map (\<lambda>i. if map_of ?e (u, i) \<noteq> None then 1 else 0) id_items) batch =
                 map (mask_row df id_items) batch"
      by (simp add: mask_row_def cong: map_cong)
    with False d show ?thesis
      by (simp add: build_drop_mask_def build_drop_mask_with_def pivot_def Let_def)
  qed
qed

lemma map2_map_map: "map2 f (map g xs) (map h xs) = map (\<lambda>x. f (g x) (h x)) xs"
  by (induction xs) simp_all

lemma batch_user_item_rows:
  "batch_user_item m (map (df_users m) batch)
     (map (\<lambda>user_id. as_int32 (dict_get (user_encoder m) user_id 0)) batch)
     (map (df_items m) id_items)
     (map (\<lambda>item_id. as_int16 (dict_get (item_encoder m) item_id 0)) id_items)
     (map (mask_row df id_items) batch) =
   map (stories_row m df id_items) batch"
  by (simp add: batch_user_item_def mask_scores_def map2_map_map Let_def comp_def
      stories_row_def stories_score_def [abs_def])

lemma stories_batch_rows:
  "stories_batch m cfg (groupby_count df) id_users id_items (map (df_items m) id_items)
     (map (\<lambda>item_id. as_int16 (dict_get (item_encoder m) item_id 0)) id_items) k =
   rows_batch (stories_row m df id_items) (valid_batch_size cfg) id_users id_items k"
  by (rule ext)
    (simp add: stories_batch_def rows_batch_def Let_def build_drop_mask_groupby
      batch_predict_topk_rows batch_user_item_rows)

lemma length_stories_row [simp]: "length (stories_row m df id_items u) = length id_items"
  by (simp add: stories_row_def mask_row_def)

lemma length_popular_row [simp]: "length (popular_row m df id_items u) = length id_items"
  by (simp add: popular_row_def mask_row_def)

lemma loop_result:
  assumes "\<forall>u. length (row u) = n" and "0 < b"
  shows "(case py_range (length us) b of
            Inl e \<Rightarrow> Inl e
          | Inr starts \<Rightarrow>
              (case batch_loop (rows_batch row b us items k) starts ([], []) of
                 Inl e \<Rightarrow> Inl e
               | Inr (s_users, s_items) \<Rightarrow> data_frame s_users s_items)) =
         (if us = [] then Inr []
          else if n < k then Inl RuntimeError
          else Inr (concat (map (user_top_k row items k) us)))"
proof (cases "us = []")
  case True
  then have "range_from 0 (length us) b = []"
    by (subst range_from.simps) simp
  with True assms show ?thesis
    by (simp add: py_range_def data_frame_def)
next
  case False
  show ?thesis
  proof (cases "n < k")
    case True
    with False assms show ?thesis
      by (simp add: py_range_def batch_loop_rows_Inl [where n = n])
  next
    case kn: False
    then have k: "k \<le> n" by simp
    let ?f = "\<lambda>u. take k (argsort_desc (row u))"
    have len: "\<forall>u\<in>set us. length (map (\<lambda>j. items ! j) (?f u)) = k"
      using assms k by (simp add: argsort_desc_def)
    have l1: "length (concat (map (replicate k) us)) = length us * k"
      by (induction us) simp_all
    have l2: "length (concat (map ?f us)) = length us * k"
      using assms k by (induction us) (simp_all add: argsort_desc_def)
    have z: "zip (concat (map (replicate k) us)) (map (\<lambda>j. items ! j) (concat (map ?f us))) =
             concat (map (user_top_k row items k) us)"
      using zip_concat_replicate [OF len]
      by (simp add: map_concat comp_def user_top_k_def [abs_def])
    show ?thesis
      using False kn assms
      by (simp add: py_range_def batch_loop_rows [OF assms(1) k assms(2)] data_frame_def l1 l2 z)
  qed
qed

lemma stories_predict_char:
  assumes "0 < valid_batch_size cfg"
  shows "StoriesRecModel_model_predict_top_k m cfg df id_users id_items k =
           (if id_users = [] then Inr []
            else if length id_items < k then Inl RuntimeError
            else Inr (concat (map (user_top_k (stories_row m df id_items) id_items k) id_users)))"
  unfolding StoriesRecModel_model_predict_top_k_def Let_def stories_batch_rows
  by (rule loop_result) (simp_all add: assms)











lemma map2_map_replicate:
  "map2 f (map g xs) (replicate (length xs) c) = map (\<lambda>x. f (g x) c) xs"
  by (induction xs) simp_all

lemma popular_batch_with_rows:
  assumes "length row = length cand"
  shows "popular_batch_with tk cfg (groupby_count df) id_users cand row k =
         rows_batch_with tk (\<lambda>u. map2 masked_score (mask_row df cand u) row)
           (valid_batch_size cfg) id_users cand k"
  using assms
  by (intro ext)
    (simp add: popular_batch_with_def rows_batch_with_def Let_def build_drop_mask_groupby
      expand_row_def mask_scores_def map2_map_replicate)

lemma rows_batch_with_topk: "rows_batch_with topk = rows_batch"
  by (intro ext) (simp add: rows_batch_with_def rows_batch_def topk_rows_def)



lemma take_drop_concat_segment:
  assumes "\<forall>u\<in>set us. length (f u) = k" and "n < length us"
  shows "take k (drop (n * k) (concat (map f us))) = f (us ! n)"
  using assms
proof (induction us arbitrary: n)
  case Nil
  then show ?case by simp
next
  case (Cons u us)
  show ?case
  proof (cases n)
    case 0
    with Cons.prems show ?thesis by simp
  next
    case (Suc n')
    with Cons show ?thesis by simp
  qed
qed

lemma topk_descending:
  assumes "Suc i < k" and "k \<le> length r"
  shows "r ! (take k (argsort_desc r) ! Suc i) \<le> r ! (take k (argsort_desc r) ! i)"
proof -
  let ?idx = "take k (argsort_desc r)"
  have "sorted_wrt (ranks_before r) ?idx"
    using argsort_desc_ranks by (rule sorted_wrt_take)
  moreover have "length ?idx = k" using assms by simp
  ultimately have "ranks_before r (?idx ! i) (?idx ! Suc i)"
    using assms by (simp add: sorted_wrt_iff_nth_less)
  then show ?thesis by (auto simp: ranks_before_def)
qed

lemma set_take_argsort_desc: "set (take k (argsort_desc r)) \<subseteq> {..<length r}"
  using set_take_subset [of k "argsort_desc r"] by simp


lemma topk_InrD:
  assumes "topk r k = Inr idx"
  shows "k \<le> length r" and "idx = take k (argsort_desc r)"
  using assms by (auto simp: topk_def split: if_splits)


lemma sorted_wrt_take_all:
  assumes "sorted_wrt R l" and "\<And>a b. R a b \<Longrightarrow> P b \<Longrightarrow> P a"
    and "k \<le> length (filter P l)"
  shows "\<forall>x\<in>set (take k l). P x"
  using assms(1,3)
proof (induction l arbitrary: k)
  case Nil
  then show ?case by simp
next
  case (Cons x xs)
  show ?case
  proof (cases k)
    case 0
    then show ?thesis by simp
  next
    case (Suc k')
    have sx: "sorted_wrt R xs" and rx: "\<forall>y\<in>set xs. R x y"
      using Cons.prems(1) by simp_all
    show ?thesis
    proof (cases "P x")
      case True
      then have "k' \<le> length (filter P xs)"
        using Cons.prems(2) Suc by simp
      then have "\<forall>y\<in>set (take k' xs). P y"
        using sx by (rule Cons.IH [rotated])
      with True Suc show ?thesis by simp
    next
      case False
      have "\<not> P y" if "y \<in> set xs" for y
        using rx that assms(2) [of x y] False by blast
      then have "filter P xs = []" by (simp add: filter_empty_conv)
      with Cons.prems(2) False Suc show ?thesis by simp
    qed
  qed
qed

lemma length_filter_nth:
  "length (filter (\<lambda>j. Q (xs ! j)) [0..<length xs]) = length (filter Q xs)"
proof -
  have "filter Q (map (\<lambda>j. xs ! j) [0..<length xs]) =
          map (\<lambda>j. xs ! j) (filter (\<lambda>j. Q (xs ! j)) [0..<length xs])"
    by (simp add: filter_map comp_def)
  then have "length (filter Q (map (\<lambda>j. xs ! j) [0..<length xs])) =
               length (filter (\<lambda>j. Q (xs ! j)) [0..<length xs])"
    by simp
  then show ?thesis by (simp add: map_nth)
qed

lemma length_filter_argsort_desc:
  "length (filter P (argsort_desc r)) = length (filter P [0..<length r])"
  by (simp add: argsort_desc_def filter_sort)

lemma stories_row_nth:
  assumes "j < length id_items"
  shows "stories_row m df id_items u ! j =
           masked_score (if excluded df u (id_items ! j) then 1 else 0)
             (stories_score m u (id_items ! j))"
  using assms by (simp add: stories_row_def mask_row_def)

lemma masked_score_simps [simp]: "masked_score 1 s = - 1" "masked_score 0 s = s"
  by (simp_all add: masked_score_def)


lemma loop_all_error:
  assumes "\<forall>s. body s = Inl e" and "0 < b"
  shows "(case py_range (length us) b of
            Inl e \<Rightarrow> Inl e
          | Inr starts \<Rightarrow>
              (case batch_loop body starts ([], []) of
                 Inl e \<Rightarrow> Inl e
               | Inr (s_users, s_items) \<Rightarrow> data_frame s_users s_items)) =
         (if us = [] then Inr [] else Inl e)"
proof (cases "us = []")
  case True
  then have "range_from 0 (length us) b = []"
    by (subst range_from.simps) simp
  with True assms show ?thesis
    by (simp add: py_range_def data_frame_def)
next
  case False
  then have "range_from 0 (length us) b = 0 # range_from b (length us) b"
    using assms(2) by (subst range_from.simps) simp
  with False assms show ?thesis
    by (simp add: py_range_def)
qed

lemma popular_batch_rows_gen:
  assumes "length row = length cand"
  shows "popular_batch cfg (groupby_count df) id_users cand row k =
         rows_batch (\<lambda>u. map2 masked_score (mask_row df cand u) row)
           (valid_batch_size cfg) id_users cand k"
  using assms
  by (simp add: popular_batch_def popular_batch_with_rows rows_batch_with_topk)

lemma popular_batch_mismatch:
  assumes "length row \<noteq> length cand"
  shows "popular_batch cfg (groupby_count df) id_users cand row k s = Inl RuntimeError"
  using assms
  by (simp add: popular_batch_def popular_batch_with_def Let_def build_drop_mask_groupby)

lemma popular_loop_any_batch_size:
  assumes "0 < valid_batch_size cfg"
  shows "(case py_range (length us) (valid_batch_size cfg) of
            Inl e \<Rightarrow> Inl e
          | Inr starts \<Rightarrow>
              (case batch_loop (popular_batch cfg (groupby_count df) us cand row k)
                      starts ([], []) of
                 Inl e \<Rightarrow> Inl e
               | Inr (s_users, s_items) \<Rightarrow> data_frame s_users s_items)) =
         (if us = [] then Inr []
          else if length row \<noteq> length cand then Inl RuntimeError
          else if length cand < k then Inl RuntimeError
          else Inr (concat (map (user_top_k
                 (\<lambda>u. map2 masked_score (mask_row df cand u) row) cand k) us)))"
proof (cases "length row = length cand")
  case True
  have "\<forall>u. length (map2 masked_score (mask_row df cand u) row) = length cand"
    using True by (simp add: mask_row_def)
  from loop_result [OF this assms, of us cand k] have
    "(case py_range (length us) (valid_batch_size cfg) of
        Inl e \<Rightarrow> Inl e
      | Inr starts \<Rightarrow>
          (case batch_loop (popular_batch cfg (groupby_count df) us cand row k)
                  starts ([], []) of
             Inl e \<Rightarrow> Inl e
           | Inr (s_users, s_items) \<Rightarrow> data_frame s_users s_items)) =
     (if us = [] then Inr []
      else if length cand < k then Inl RuntimeError
      else Inr (concat (map (user_top_k
             (\<lambda>u. map2 masked_score (mask_row df cand u) row) cand k) us)))"
    unfolding popular_batch_rows_gen [OF True] .
  then show ?thesis using True by simp
next
  case False
  have "\<forall>s. popular_batch cfg (groupby_count df) us cand row k s = Inl RuntimeError"
    using False by (simp add: popular_batch_mismatch)
  from loop_all_error [OF this assms, of us] False show ?thesis by simp
qed




section \<open>Facts about scores and sample sizes\<close>

lemma map_of_map_value:
  "map_of (map (\<lambda>(item, c). (item, f c)) xs) k = map_option f (map_of xs k)"
  by (induction xs) auto

lemma map_of_get_item_scores:
  "map_of (get_item_scores m) item =
     map_option (\<lambda>c. (c + alpha m) / (sum_list (map snd (items_popularity m)) + beta m))
       (map_of (items_popularity m) item)"
  by (simp add: get_item_scores_def Let_def map_of_map_value)


lemma popular_score_table:
  assumes "distinct (map fst (items_popularity m))" and "(item, c) \<in> set (items_popularity m)"
  shows "popular_score m item = (c + alpha m) / (sum_list (map snd (items_popularity m)) + beta m)"
proof -
  have "map_of (items_popularity m) item = Some c"
    using assms by simp
  then show ?thesis by (simp add: popular_score_def map_of_get_item_scores)
qed

lemma popular_score_absent:
  assumes "item \<notin> fst ` set (items_popularity m)"
  shows "popular_score m item = 0"
proof -
  have "map_of (items_popularity m) item = None"
    using assms by (simp add: map_of_eq_None_iff)
  then show ?thesis by (simp add: popular_score_def map_of_get_item_scores)
qed

section \<open>Facts about the training of the popularity model\<close>

lemma distinct_groupby_agg: "distinct (map fst (groupby_agg rows agg))"
  by (simp add: groupby_agg_def comp_def)

lemma map_of_groupby_agg:
  "map_of (groupby_agg rows agg) key =
     (if key \<in> fst ` set rows
      then Some (agg (map snd (filter (\<lambda>(key', v). key' = key) rows))) else None)"
  by (simp add: groupby_agg_def map_of_map_restrict restrict_map_def)

lemma sum_list_groupby_length:
  "sum_list (map snd (groupby_agg rows (\<lambda>vs. real (length vs)))) = real (length rows)"
proof -
  let ?keys = "map fst rows"
  have c: "length (filter (\<lambda>(key', v). key' = key) rows) = count_list ?keys key" for key
    by (induction rows) auto
  have "sum_list (map snd (groupby_agg rows (\<lambda>vs. real (length vs)))) =
          sum_list (map (\<lambda>key. real (count_list ?keys key)) (sort (remdups ?keys)))"
    by (simp add: groupby_agg_def comp_def c)
  also have "\<dots> = (\<Sum>key\<in>set ?keys. real (count_list ?keys key))"
    by (subst sum_list_distinct_conv_sum_set) simp_all
  also have "\<dots> = real (\<Sum>key\<in>set ?keys. count_list ?keys key)"
    by simp
  also have "(\<Sum>key\<in>set ?keys. count_list ?keys key) = length ?keys"
    by (rule sum_count_set) simp_all
  finally show ?thesis by simp
qed

lemma default_count:
  "length (map snd (filter (\<lambda>(key', v). key' = item)
     (map (\<lambda>(u, i, r). (i, u)) (filter (\<lambda>(u, i, r). r = 1) df_log)))) =
   interaction_count df_log item"
proof -
  have "length (filter (\<lambda>(key', v). key' = item)
          (map (\<lambda>(u, i, r). (i, u)) (filter (\<lambda>(u, i, r). r = 1) df_log))) =
        length (filter (\<lambda>(u, i, r). i = item \<and> r = 1) df_log)"
    by (induction df_log) auto
  then show ?thesis by (simp add: interaction_count_def)
qed

lemma default_member:
  "(item \<in> fst ` set (map (\<lambda>(u, i, r). (i, u)) (filter (\<lambda>(u, i, r). r = 1) df_log))) =
   (0 < interaction_count df_log item)"
  by (induction df_log) (auto simp: interaction_count_def)

lemma default_training_table:
  assumes "\<not> use_mean_relevance cfg" and "\<not> use_item_freq_predict cfg"
  shows "map_of (items_popularity (model_train vc fl cfg a b df_log)) item =
           (let c = interaction_count (low_freq_train_items vc fl cfg df_log) item
            in if c = 0 then None else Some (real c))"
proof -
  let ?log = "low_freq_train_items vc fl cfg df_log"
  let ?rows = "map (\<lambda>(u, i, r). (i, u)) (filter (\<lambda>(u, i, r). r = 1) ?log)"
  have t: "items_popularity (model_train vc fl cfg a b df_log) =
             groupby_agg ?rows (\<lambda>users. real (length users))"
    using assms by (simp add: model_train_def Let_def)
  show ?thesis
  proof (cases "item \<in> fst ` set ?rows")
    case True
    then have "0 < interaction_count ?log item"
      using default_member [of item ?log] by blast
    with True show ?thesis
      unfolding t map_of_groupby_agg Let_def
      by (simp only: default_count if_True) simp
  next
    case False
    then have "\<not> 0 < interaction_count ?log item"
      using default_member [of item ?log] by blast
    with False show ?thesis
      unfolding t map_of_groupby_agg Let_def
      by (simp only: if_False) simp
  qed
qed

lemma default_training_total:
  assumes "\<not> use_mean_relevance cfg" and "\<not> use_item_freq_predict cfg"
  shows "sum_list (map snd (items_popularity (model_train vc fl cfg a b df_log))) =
           real (length (filter (\<lambda>(u, i, r). r = 1) (low_freq_train_items vc fl cfg df_log)))"
  using assms by (simp add: model_train_def Let_def sum_list_groupby_length)

lemma model_train_fields:
  "alpha (model_train vc fl cfg a b df_log) = a"
  "beta (model_train vc fl cfg a b df_log) = b"
  by (simp_all add: model_train_def Let_def)

lemma distinct_model_train:
  "distinct (map fst (items_popularity (model_train vc fl cfg a b df_log)))"
  by (simp add: model_train_def Let_def distinct_groupby_agg)

lemma popular_score_default_training:
  assumes "\<not> use_mean_relevance cfg" and "\<not> use_item_freq_predict cfg"
    and "m = model_train vc fl cfg a b df_log"
  shows "popular_score m item =
           (let c = interaction_count (low_freq_train_items vc fl cfg df_log) item
            in if c = 0 then 0
               else (real c + alpha m) / (sum_list (map snd (items_popularity m)) + beta m))"
  unfolding popular_score_def map_of_get_item_scores assms(3)
    default_training_table [OF assms(1,2)]
  by (simp add: Let_def)

section \<open>Facts about scores and sample sizes, continued\<close>

lemma sigmoid_bounds: "0 < sigmoid t" "sigmoid t < 1"
  by (simp_all add: sigmoid_def add_pos_pos)

lemma popular_score_nonneg:
  assumes "\<forall>(item, c)\<in>set (items_popularity p). 0 \<le> c" and "0 \<le> alpha p" and "0 < beta p"
  shows "0 \<le> popular_score p i"
proof (cases "map_of (items_popularity p) i")
  case None
  then show ?thesis by (simp add: popular_score_def map_of_get_item_scores)
next
  case (Some c)
  then have "(i, c) \<in> set (items_popularity p)" by (rule map_of_SomeD)
  with assms(1) have c: "0 \<le> c" by auto
  have "0 \<le> sum_list (map snd (items_popularity p))"
    using assms(1) by (intro sum_list_nonneg) auto
  with c assms(2,3) Some show ?thesis
    by (simp add: popular_score_def map_of_get_item_scores)
qed

lemma mask_scores_nth:
  assumes "i < length dm" and "i < length user_item"
    and "j < length (dm ! i)" and "j < length (user_item ! i)"
  shows "mask_scores dm user_item ! i ! j = masked_score (dm ! i ! j) (user_item ! i ! j)"
  using assms by (simp add: mask_scores_def)


lemma dropout_size_bounds:
  assumes "0 < p" and "p < 1" and "0 < n"
  shows "1 \<le> py_int (real n * (1 - p) + 1)" and "py_int (real n * (1 - p) + 1) \<le> int n"
proof -
  let ?x = "real n * (1 - p) + 1"
  have pos: "0 < real n * (1 - p)" using assms by simp
  have "real n * (1 - p) < real n * 1"
    using assms by (intro mult_strict_left_mono) simp_all
  then have up: "?x < real n + 1" by simp
  have f: "py_int ?x = \<lfloor>?x\<rfloor>" using pos by (simp add: py_int_def)
  show "1 \<le> py_int ?x" unfolding f using pos by (simp add: le_floor_iff)
  have "\<lfloor>?x\<rfloor> < int n + 1" by (rule floor_less_iff [THEN iffD2]) (use up in simp)
  then show "py_int ?x \<le> int n" unfolding f by linarith
qed


lemma get_idx_exact_arithmetic:
  assumes "0 \<le> trx_dropout" and "trx_dropout < 1"
    and "distinct perm" and "set perm = {..<seq_len}"
  shows "\<exists>idx. get_idx (\<lambda>x. x) trx_dropout seq_len perm = Inr idx
           \<and> sorted idx \<and> distinct idx \<and> set idx \<subseteq> {..<seq_len}
           \<and> (0 < trx_dropout \<and> 0 < seq_len \<longrightarrow>
                length idx = nat (py_int (real seq_len * (1 - trx_dropout) + 1))
                \<and> 1 \<le> length idx \<and> length idx \<le> seq_len)
           \<and> (\<not> (0 < trx_dropout \<and> 0 < seq_len) \<longrightarrow> idx = [0..<seq_len])"
proof (cases "0 < trx_dropout \<and> 0 < seq_len")
  case True
  let ?size = "py_int (real seq_len * (1 - trx_dropout) + 1)"
  let ?idx = "sort (take (nat ?size) perm)"
  have b: "1 \<le> ?size" "?size \<le> int seq_len"
    using dropout_size_bounds [of trx_dropout seq_len] True assms(2) by simp_all
  have len: "length perm = seq_len"
    using assms(3,4) distinct_card [of perm] by simp
  have g: "get_idx (\<lambda>x. x) trx_dropout seq_len perm = Inr ?idx"
    using True b by (simp add: get_idx_def random_choice_def)
  have l: "length ?idx = nat ?size" using b len by simp
  have "set ?idx \<subseteq> {..<seq_len}"
    using set_take_subset [of "nat ?size" perm] assms(4) by simp
  moreover have "distinct ?idx" using assms(3) by (simp add: distinct_take)
  moreover have "1 \<le> length ?idx" "length ?idx \<le> seq_len"
    using b l by simp_all
  ultimately show ?thesis using g l True by simp
next
  case False
  have "get_idx (\<lambda>x. x) trx_dropout seq_len perm = Inr [0..<seq_len]"
    unfolding get_idx_def by (simp only: False if_False)
  with False show ?thesis by (simp add: subset_iff)
qed


lemma floor_log2_eq:
  assumes "2 powr of_int e \<le> x" and "x < 2 powr (of_int e + 1)"
  shows "\<lfloor>log 2 x\<rfloor> = e"
proof -
  have pos: "0 < x" using assms(1) powr_gt_zero [of 2 "of_int e"] by linarith
  have "of_int e \<le> log 2 x"
    using assms(1) pos by (simp add: le_log_iff)
  moreover have "log 2 x < of_int e + 1"
    using assms(2) pos by (simp add: log_less_iff)
  ultimately show ?thesis by (simp add: floor_eq_iff)
qed

lemma two_powr_minus: "(2 :: real) powr (- real n) = 1 / 2 ^ n"
  by (simp add: powr_minus powr_realpow divide_inverse)

lemma binary64_normal:
  assumes "2 powr of_int e \<le> x" and "x < 2 powr (of_int e + 1)"
  shows "binary64 x = of_int (round_half_even (x / 2 powr (of_int e - 52))) * 2 powr (of_int e - 52)"
proof -
  have pos: "0 < x" using assms(1) powr_gt_zero [of 2 "of_int e"] by linarith
  then have "\<bar>x\<bar> = x" "sgn x = 1" "x \<noteq> 0" by simp_all
  then show ?thesis
    unfolding binary64_def by (simp only: floor_log2_eq [OF assms] if_False mult_1)
qed

lemma round_half_even_of_int: "round_half_even (of_int k) = k"
  by (simp add: round_half_even_def)

lemma binary64_one: "binary64 1 = 1"
proof -
  have u: "(2 :: real) powr (of_int 0 - 52) = 1 / 2 ^ 52"
    using two_powr_minus [of 52] by simp
  have "binary64 1 = of_int (round_half_even (1 / 2 powr (of_int 0 - 52))) * 2 powr (of_int 0 - 52)"
    by (rule binary64_normal) simp_all
  also have "\<dots> = of_int (round_half_even (of_int (2 ^ 52))) * (1 / 2 ^ 52)"
    unfolding u by simp
  also have "\<dots> = 1"
    unfolding round_half_even_of_int by simp
  finally show ?thesis .
qed

lemma binary64_two: "binary64 2 = 2"
proof -
  have u: "(2 :: real) powr (of_int 1 - 52) = 1 / 2 ^ 51"
    using two_powr_minus [of 51] by simp
  have "binary64 2 = of_int (round_half_even (2 / 2 powr (of_int 1 - 52))) * 2 powr (of_int 1 - 52)"
    by (rule binary64_normal) simp_all
  also have "\<dots> = of_int (round_half_even (of_int (2 ^ 52))) * (1 / 2 ^ 51)"
    unfolding u by simp
  also have "\<dots> = 2"
    unfolding round_half_even_of_int by simp
  finally show ?thesis .
qed

lemma binary64_below_one: "binary64 (1 - 1 / 2 ^ 60) = 1"
proof -
  let ?x = "1 - 1 / 2 ^ 60 :: real"
  have u: "(2 :: real) powr (of_int (- 1) - 52) = 1 / 2 ^ 53"
    using two_powr_minus [of 53] by simp
  have lo: "(2 :: real) powr of_int (- 1) \<le> ?x"
    using two_powr_minus [of 1] by simp
  have hi: "?x < 2 powr (of_int (- 1) + 1)" by simp
  have q: "?x / (1 / 2 ^ 53) = of_int (2 ^ 53 - 1) + 127 / 128" by simp
  have f: "\<lfloor>of_int (2 ^ 53 - 1) + 127 / 128 :: real\<rfloor> = 2 ^ 53 - 1"
    by (simp add: floor_eq_iff)
  have r: "round_half_even (of_int (2 ^ 53 - 1) + 127 / 128) = 2 ^ 53"
    unfolding round_half_even_def f by simp
  have "binary64 ?x = of_int (round_half_even (?x / 2 powr (of_int (- 1) - 52))) * 2 powr (of_int (- 1) - 52)"
    using lo hi by (rule binary64_normal)
  also have "\<dots> = of_int (round_half_even (of_int (2 ^ 53 - 1) + 127 / 128)) * (1 / 2 ^ 53)"
    unfolding u q ..
  also have "\<dots> = 1"
    unfolding r by simp
  finally show ?thesis .
qed

section \<open>Facts about the matrix-factorization model\<close>










lemma as_int_zero [simp]: "as_int16 0 = 0" "as_int32 0 = 0"
  by (simp_all add: as_int16_def as_int32_def)




lemma num_embeddings_pos: "0 < num_embeddings encoder"
  by (simp add: num_embeddings_def)


lemma scenario_num_embeddings:
  "num_embeddings (user_encoder scenario_model) = 2"
  "num_embeddings (item_encoder scenario_model) = 4"
  by (simp_all add: scenario_model_def num_embeddings_def)

lemma scenario_indices:
  "as_int32 (dict_get (user_encoder scenario_model) u 0) = (if u = 1 then 1 else 0)"
  "as_int16 (dict_get (item_encoder scenario_model) i 0) =
     (if i = 1 then 1 else if i = 2 then 2 else if i = 3 then 3 else 0)"
  by (simp_all add: scenario_model_def dict_get_def as_int16_def as_int32_def)

lemma scenario_indices_in_range: "indices_in_range scenario_model id_users id_items"
  by (simp add: indices_in_range_def scenario_num_embeddings scenario_indices)

section \<open>The empty exclusion case\<close>

text \<open>
  Claim C2. For every batch of users and every ordered list of candidate items, when no
  row of the grouped exclusion log belongs to a user of the batch, the mask construction
  returns the all-zero mask with one row per batch user and one column per candidate
  item. It does so whatever the pivot operation is, also one that always raises: the
  pivot is not called, and nothing is raised.
\<close>

theorem empty_exclusion_mask_all_zero:
  assumes "filter (\<lambda>((u, i), c). u \<in> set batch_id_users) df_log_exclude = []"
  shows "build_drop_mask_with pivot_op df_log_exclude batch_id_users id_items =
           Inr (replicate (length batch_id_users) (replicate (length id_items) 0))
         \<and> build_drop_mask df_log_exclude batch_id_users id_items =
           Inr (replicate (length batch_id_users) (replicate (length id_items) 0))"
  using assms by (simp add: build_drop_mask_with_def build_drop_mask_def)

theorem empty_exclusion_mask_all_zero_witness:
  "build_drop_mask_with (\<lambda>df. Inl RuntimeError) (groupby_count [(1, 1, 1)]) [5, 6] [1, 2, 3] =
     Inr [[0, 0, 0], [0, 0, 0]]
   \<and> build_drop_mask (groupby_count [(1, 1, 1)]) [5, 6] [1, 2, 3] = Inr [[0, 0, 0], [0, 0, 0]]"
proof -
  have h: "filter (\<lambda>((u, i), c). u \<in> set [5, 6 :: nat]) (groupby_count [(1, 1, 1)]) = []"
    by code_simp
  have r: "replicate (length [5, 6 :: nat]) (replicate (length [1, 2, 3 :: nat]) (0 :: real)) =
             [[0, 0, 0], [0, 0, 0]]"
    by code_simp
  show ?thesis
    using empty_exclusion_mask_all_zero [OF h, of "\<lambda>df. Inl RuntimeError" "[1, 2, 3]"]
    unfolding r by simp
qed

section \<open>Top-k extraction returns k indices in descending score order\<close>

text \<open>
  Claim C3. For every score row \<open>r\<close> and every \<open>k\<close> that is at most the length of the row,
  top-k extraction returns exactly k indices of the row, all distinct, and the score at
  each returned index is at least the score at the next one. Consequently, for a
  positive batch size, k at most the number of candidate items and encoded indices that
  are rows of the embedding tables,
  \<open>model_predict_top_k\<close> of the learned-embedding model returns k entries for every user
  of the list, the entries of the n-th user at the positions n * k, ..., n * k + k - 1,
  and they are the items at k distinct positions of the user's combined score row, in
  descending order of the combined score.
\<close>

theorem topk_exactly_k_descending:
  assumes "k \<le> length r" and "0 < valid_batch_size cfg" and "k \<le> length id_items"
    and "indices_in_range m id_users id_items"
  shows "(\<exists>idx. topk r k = Inr idx \<and> length idx = k \<and> distinct idx \<and> set idx \<subseteq> {..<length r}
            \<and> (\<forall>i. Suc i < k \<longrightarrow> r ! (idx ! Suc i) \<le> r ! (idx ! i)))
       \<and> (\<exists>out. StoriesRecModel_model_predict_top_k m cfg df id_users id_items k = Inr out
            \<and> length out = length id_users * k
            \<and> (\<forall>n<length id_users. \<exists>idx.
                  take k (drop (n * k) out) = map (\<lambda>j. (id_users ! n, id_items ! j)) idx
                  \<and> length idx = k \<and> distinct idx
                  \<and> (\<forall>i. Suc i < k \<longrightarrow>
                        stories_row m df id_items (id_users ! n) ! (idx ! Suc i)
                          \<le> stories_row m df id_items (id_users ! n) ! (idx ! i))))"
proof (intro conjI)
  show "\<exists>idx. topk r k = Inr idx \<and> length idx = k \<and> distinct idx \<and> set idx \<subseteq> {..<length r}
            \<and> (\<forall>i. Suc i < k \<longrightarrow> r ! (idx ! Suc i) \<le> r ! (idx ! i))"
    using assms(1) topk_descending [of _ k r] set_take_argsort_desc [of k r]
    by (simp add: topk_Inr)
next
  let ?row = "stories_row m df id_items"
  let ?f = "user_top_k ?row id_items k"
  let ?out = "concat (map ?f id_users)"
  have len: "\<forall>u\<in>set id_users. length (?f u) = k"
    using assms(3) by (simp add: user_top_k_def)
  have res: "StoriesRecModel_model_predict_top_k m cfg df id_users id_items k = Inr ?out"
    using assms(2,3) by (cases "id_users = []") (simp_all add: stories_predict_char)
  have l: "length ?out = length id_users * k"
    using len by (induction id_users) simp_all
  have seg: "\<exists>idx. take k (drop (n * k) ?out) = map (\<lambda>j. (id_users ! n, id_items ! j)) idx
                \<and> length idx = k \<and> distinct idx
                \<and> (\<forall>i. Suc i < k \<longrightarrow> ?row (id_users ! n) ! (idx ! Suc i) \<le> ?row (id_users ! n) ! (idx ! i))"
    if "n < length id_users" for n
  proof -
    let ?idx = "take k (argsort_desc (?row (id_users ! n)))"
    have "take k (drop (n * k) ?out) = ?f (id_users ! n)"
      using len that by (rule take_drop_concat_segment)
    then have "take k (drop (n * k) ?out) = map (\<lambda>j. (id_users ! n, id_items ! j)) ?idx"
      by (simp add: user_top_k_def)
    moreover have "length ?idx = k" using assms(3) by simp
    moreover have "distinct ?idx" by (simp add: distinct_take)
    moreover have "\<forall>i. Suc i < k \<longrightarrow> ?row (id_users ! n) ! (?idx ! Suc i) \<le> ?row (id_users ! n) ! (?idx ! i)"
      using assms(3) topk_descending [of _ k "?row (id_users ! n)"] by simp
    ultimately show ?thesis by blast
  qed
  show "\<exists>out. StoriesRecModel_model_predict_top_k m cfg df id_users id_items k = Inr out
            \<and> length out = length id_users * k
            \<and> (\<forall>n<length id_users. \<exists>idx.
                  take k (drop (n * k) out) = map (\<lambda>j. (id_users ! n, id_items ! j)) idx
                  \<and> length idx = k \<and> distinct idx
                  \<and> (\<forall>i. Suc i < k \<longrightarrow>
                        ?row (id_users ! n) ! (idx ! Suc i) \<le> ?row (id_users ! n) ! (idx ! i)))"
    using res l seg by blast
qed


theorem topk_exactly_k_descending_witness:
  "(2 :: nat) \<le> length [9 / 10, 1 / 2, 1 / 10 :: real]
   \<and> 0 < valid_batch_size (scenario_config 2)
   \<and> (2 :: nat) \<le> length [1, 2, 3 :: nat]
   \<and> indices_in_range scenario_model [1, 4] [1, 2, 3]
   \<and> topk [9 / 10, 1 / 2, 1 / 10] 2 = Inr [0, 1]
   \<and> StoriesRecModel_model_predict_top_k scenario_model (scenario_config 2)
         [(1, 1, 1)] [1, 4] [1, 2, 3] 2 = Inr [(1, 2), (1, 3), (4, 1), (4, 2)]"
proof -
  have h1: "(2 :: nat) \<le> length [9 / 10, 1 / 2, 1 / 10 :: real]" by simp
  have h2: "0 < valid_batch_size (scenario_config 2)" by (simp add: scenario_config_def)
  have h3: "(2 :: nat) \<le> length [1, 2, 3 :: nat]" by simp
  have h4: "indices_in_range scenario_model [1, 4] [1, 2, 3]"
    by (rule scenario_indices_in_range)
  have e1: "topk [9 / 10, 1 / 2, 1 / 10] 2 = Inr [0, 1]" by code_simp
  have e2: "StoriesRecModel_model_predict_top_k scenario_model (scenario_config 2)
              [(1, 1, 1)] [1, 4] [1, 2, 3] 2 = Inr [(1, 2), (1, 3), (4, 1), (4, 2)]"
    by code_simp
  from topk_exactly_k_descending [OF h1 h2 h3 h4, of "[(1, 1, 1)]"]
  obtain idx out where "topk [9 / 10, 1 / 2, 1 / 10] 2 = Inr idx" and "length idx = 2"
    and "StoriesRecModel_model_predict_top_k scenario_model (scenario_config 2)
           [(1, 1, 1)] [1, 4] [1, 2, 3] 2 = Inr out"
    and "length out = length [1, 4 :: nat] * 2"
    by blast
  with e1 e2 h1 h2 h3 h4 show ?thesis by simp
qed

section \<open>Ties in top-k extraction\<close>

text \<open>
  Claim C9, amended. Top-k extraction returns, row by row, what the selection primitive
  returns for the masked score row: the program adds no order of its own. For every two
  primitives that return a top-k selection of a row (or two runs of one primitive), the
  results for a batch have the same scores position by position, so that they can differ
  only in which of the positions with exactly equal scores they return and in the order
  of such positions. The order among equal scores is that of the primitive: it is not
  the lower index first for every primitive that the specification admits.
\<close>

theorem topk_tie_order_of_primitive:
  assumes "selection_primitive top_k" and "selection_primitive top_k'"
    and "batch_predict_with top_k m t_users user_id t_items item_id drop_mask k = Inr out"
    and "batch_predict_with top_k' m t_users user_id t_items item_id drop_mask k = Inr out'"
  shows "(let rows = batch_user_item m t_users user_id t_items item_id drop_mask
          in length out = length rows \<and> length out' = length rows
             \<and> (\<forall>n<length rows.
                  top_k (rows ! n) k = Inr (out ! n) \<and> top_k' (rows ! n) k = Inr (out' ! n)
                  \<and> top_k_of (rows ! n) k (out ! n) \<and> top_k_of (rows ! n) k (out' ! n)
                  \<and> map ((!) (rows ! n)) (out ! n) = map ((!) (rows ! n)) (out' ! n)))"
proof -
  let ?rows = "batch_user_item m t_users user_id t_items item_id drop_mask"
  have o: "length out = length ?rows" "\<forall>n<length ?rows. top_k (?rows ! n) k = Inr (out ! n)"
    using topk_rows_with_InrD [of top_k ?rows k out] assms(3)
    by (simp_all add: batch_predict_with_def)
  have o': "length out' = length ?rows" "\<forall>n<length ?rows. top_k' (?rows ! n) k = Inr (out' ! n)"
    using topk_rows_with_InrD [of top_k' ?rows k out'] assms(4)
    by (simp_all add: batch_predict_with_def)
  have "top_k_of (?rows ! n) k (out ! n) \<and> top_k_of (?rows ! n) k (out' ! n)
        \<and> map ((!) (?rows ! n)) (out ! n) = map ((!) (?rows ! n)) (out' ! n)"
    if "n < length ?rows" for n
  proof -
    have t: "top_k_of (?rows ! n) k (out ! n)"
      using o(2) that by (intro selection_primitive_InrD [OF assms(1)]) simp
    have t': "top_k_of (?rows ! n) k (out' ! n)"
      using o'(2) that by (intro selection_primitive_InrD [OF assms(2)]) simp
    from t t' top_k_of_same_scores [OF t t'] show ?thesis by simp
  qed
  with o o' show ?thesis by (simp add: Let_def)
qed

theorem topk_tie_order_of_primitive_witness:
  "selection_primitive topk \<and> selection_primitive topk_higher_index_first
   \<and> batch_user_item scenario_model [None] [1] [None, None, None, None] [2, 1, 2, 2]
       [[0, 0, 0, 0]] = [[1 / 2, 9 / 10, 1 / 2, 1 / 2]]
   \<and> batch_predict_with topk scenario_model [None] [1] [None, None, None, None] [2, 1, 2, 2]
       [[0, 0, 0, 0]] 2 = Inr [[1, 0]]
   \<and> batch_predict_with topk_higher_index_first scenario_model [None] [1]
       [None, None, None, None] [2, 1, 2, 2] [[0, 0, 0, 0]] 2 = Inr [[1, 3]]
   \<and> map ((!) [1 / 2, 9 / 10, 1 / 2, 1 / 2 :: real]) [1, 0] =
       map ((!) [1 / 2, 9 / 10, 1 / 2, 1 / 2]) [1, 3]"
proof -
  have r: "batch_user_item scenario_model [None] [1] [None, None, None, None] [2, 1, 2, 2]
       [[0, 0, 0, 0]] = [[1 / 2, 9 / 10, 1 / 2, 1 / 2]]"
    by code_simp
  have h3: "batch_predict_with topk scenario_model [None] [1] [None, None, None, None]
       [2, 1, 2, 2] [[0, 0, 0, 0]] 2 = Inr [[1, 0]]"
    by code_simp
  have h4: "batch_predict_with topk_higher_index_first scenario_model [None] [1]
       [None, None, None, None] [2, 1, 2, 2] [[0, 0, 0, 0]] 2 = Inr [[1, 3]]"
    by code_simp
  from topk_tie_order_of_primitive
    [OF selection_primitive_topk selection_primitive_topk_higher_index_first h3 h4]
  have "map ((!) [1 / 2, 9 / 10, 1 / 2, 1 / 2 :: real]) [1, 0] =
          map ((!) [1 / 2, 9 / 10, 1 / 2, 1 / 2]) [1, 3]"
    unfolding r Let_def by simp
  with r h3 h4 selection_primitive_topk selection_primitive_topk_higher_index_first
  show ?thesis by simp
qed

theorem topk_higher_index_selected_counterexample:
  "selection_primitive topk_higher_index_first
   \<and> batch_user_item scenario_model [None] [1] [None, None, None, None] [2, 1, 2, 2]
       [[0, 0, 0, 0]] = [[1 / 2, 9 / 10, 1 / 2, 1 / 2]]
   \<and> batch_predict_with topk_higher_index_first scenario_model [None] [1]
       [None, None, None, None] [2, 1, 2, 2] [[0, 0, 0, 0]] 2 = Inr [[1, 3]]
   \<and> [1 / 2, 9 / 10, 1 / 2, 1 / 2 :: real] ! 0 = [1 / 2, 9 / 10, 1 / 2, 1 / 2] ! 3
   \<and> (0 :: nat) \<notin> set [1, 3]"
proof -
  have "batch_user_item scenario_model [None] [1] [None, None, None, None] [2, 1, 2, 2]
       [[0, 0, 0, 0]] = [[1 / 2, 9 / 10, 1 / 2, 1 / 2]]"
    by code_simp
  moreover have "batch_predict_with topk_higher_index_first scenario_model [None] [1]
       [None, None, None, None] [2, 1, 2, 2] [[0, 0, 0, 0]] 2 = Inr [[1, 3]]"
    by code_simp
  ultimately show ?thesis
    using selection_primitive_topk_higher_index_first by simp
qed

section \<open>Excluded pairs and the output of the learned-embedding model\<close>

text \<open>
  Claim C1, amended. Let \<open>model_predict_top_k\<close> of the learned-embedding model return a
  result, let the pair (u, i) be in the exclusion log, let every raw score of user u over
  the candidate items exceed the mask value -1, and let at least k of the candidate
  positions of u be not excluded. Then (u, i) is not in the result. The witness is the
  scenario of the specification: exclusion log [(u1, i1)], candidate items [i1, i2, i3]
  with the scores 0.9, 0.5, 0.1 and k = 2 give [(u1, i2), (u1, i3)].

  Without the condition on k the statement of the claim fails: with two candidate items,
  one of them excluded, and k = 2, top-k extraction takes both positions and the excluded
  pair is returned, last.
\<close>

theorem excluded_pair_not_recommended:
  assumes "StoriesRecModel_model_predict_top_k m cfg df id_users id_items k = Inr out"
    and "excluded df u i"
    and "\<forall>i'\<in>set id_items. - 1 < stories_score m u i'"
    and "k \<le> length (filter (\<lambda>i'. \<not> excluded df u i') id_items)"
  shows "(u, i) \<notin> set out"
proof
  assume mem: "(u, i) \<in> set out"
  let ?row = "stories_row m df id_items"
  have b: "0 < valid_batch_size cfg"
    using assms(1)
    by (cases "valid_batch_size cfg = 0")
      (simp_all add: StoriesRecModel_model_predict_top_k_def py_range_def)
  have kn: "k \<le> length id_items"
    by (rule order_trans [OF assms(4) length_filter_le])
  have out: "out = concat (map (user_top_k ?row id_items k) id_users)"
    using assms(1) kn by (cases "id_users = []") (simp_all add: stories_predict_char [OF b])
  from mem obtain j where j: "j \<in> set (take k (argsort_desc (?row u)))" and i: "i = id_items ! j"
    unfolding out by (auto simp: user_top_k_def)
  have jn: "j < length id_items"
    using j set_take_argsort_desc [of k "?row u"] by auto
  have above: "(- 1 < ?row u ! j') = (\<not> excluded df u (id_items ! j'))" if "j' < length id_items" for j'
    using that assms(3) by (simp add: stories_row_nth)
  have "length (filter (\<lambda>j. - 1 < ?row u ! j) [0..<length id_items]) =
          length (filter (\<lambda>j. \<not> excluded df u (id_items ! j)) [0..<length id_items])"
    using above by (intro arg_cong [where f = length] filter_cong) simp_all
  also have "\<dots> = length (filter (\<lambda>i'. \<not> excluded df u i') id_items)"
    by (rule length_filter_nth)
  finally have "k \<le> length (filter (\<lambda>j. - 1 < ?row u ! j) (argsort_desc (?row u)))"
    using assms(4) by (simp add: length_filter_argsort_desc)
  then have "\<forall>x\<in>set (take k (argsort_desc (?row u))). - 1 < ?row u ! x"
    by (intro sorted_wrt_take_all [OF argsort_desc_ranks]) (auto simp: ranks_before_def)
  with j have "- 1 < ?row u ! j" by simp
  with above [OF jn] i assms(2) show False by simp
qed

theorem excluded_pair_not_recommended_witness:
  "StoriesRecModel_model_predict_top_k scenario_model (scenario_config 10)
     [(1, 1, 1)] [1] [1, 2, 3] 2 = Inr [(1, 2), (1, 3)]
   \<and> excluded [(1, 1, 1)] 1 1
   \<and> (1, 1) \<notin> set [(1 :: nat, 2 :: nat), (1, 3)]"
proof -
  have h1: "StoriesRecModel_model_predict_top_k scenario_model (scenario_config 10)
              [(1, 1, 1)] [1] [1, 2, 3] 2 = Inr [(1, 2), (1, 3)]"
    by code_simp
  have h2: "excluded [(1, 1, 1)] 1 1" by code_simp
  have h3: "\<forall>i'\<in>set [1, 2, 3]. - 1 < stories_score scenario_model 1 i'" by code_simp
  have h4: "2 \<le> length (filter (\<lambda>i'. \<not> excluded [(1, 1, 1)] 1 i') [1, 2, 3])" by code_simp
  from excluded_pair_not_recommended [OF h1 h2 h3 h4] h1 h2 show ?thesis by simp
qed

theorem excluded_pair_recommended_counterexample:
  "excluded [(1, 1, 1)] 1 1
   \<and> StoriesRecModel_model_predict_top_k scenario_model (scenario_config 10)
       [(1, 1, 1)] [1] [1, 2] 2 = Inr [(1, 2), (1, 1)]"
  by code_simp

section \<open>Batching invariance\<close>

text \<open>
  Claim C5. For every user list, item list, exclusion log, model and k, the result of
  \<open>model_predict_top_k\<close> is the same for any two positive batch sizes, for the
  learned-embedding model and for the popularity model: the same recommendations in the
  same order, or the same error (for the popularity model, whose candidate items are a
  list without repetition). The combined score row of a user is a function of the user,
  the item list and the exclusion log, and the result is the concatenation of the users'
  top-k lists.
\<close>

theorem batch_size_invariance:
  assumes "0 < valid_batch_size cfg" and "0 < valid_batch_size cfg'"
  shows "StoriesRecModel_model_predict_top_k m cfg df id_users id_items k =
           StoriesRecModel_model_predict_top_k m cfg' df id_users id_items k
       \<and> (distinct id_items \<longrightarrow>
            PopularModel_model_predict_top_k p cfg df id_users id_items k =
              PopularModel_model_predict_top_k p cfg' df id_users id_items k)"
proof (intro conjI impI)
  show "StoriesRecModel_model_predict_top_k m cfg df id_users id_items k =
          StoriesRecModel_model_predict_top_k m cfg' df id_users id_items k"
    by (simp only: stories_predict_char [OF assms(1)] stories_predict_char [OF assms(2)])
next
  show "PopularModel_model_predict_top_k p cfg df id_users id_items k =
          PopularModel_model_predict_top_k p cfg' df id_users id_items k"
  proof (cases "popular_candidates_with sort_values_desc p id_items k")
    case (Inl e)
    then show ?thesis
      by (simp add: PopularModel_model_predict_top_k_def PopularModel_model_predict_top_k_with_def)
  next
    case (Inr c)
    obtain cand recs where c: "c = (cand, recs)" by (cases c)
    show ?thesis
      unfolding PopularModel_model_predict_top_k_def PopularModel_model_predict_top_k_with_def
        Let_def Inr c sum.case prod.case popular_batch_def [symmetric]
      by (simp only: popular_loop_any_batch_size [OF assms(1)]
          popular_loop_any_batch_size [OF assms(2)])
  qed
qed

theorem batch_size_invariance_witness:
  "0 < valid_batch_size (scenario_config 1) \<and> 0 < valid_batch_size (scenario_config 10)
   \<and> StoriesRecModel_model_predict_top_k scenario_model (scenario_config 1)
       [(1, 1, 1), (4, 2, 1)] [1, 4, 5] [1, 2, 3] 2 = Inr [(1, 2), (1, 3), (4, 1), (4, 3), (5, 1), (5, 2)]
   \<and> StoriesRecModel_model_predict_top_k scenario_model (scenario_config 10)
       [(1, 1, 1), (4, 2, 1)] [1, 4, 5] [1, 2, 3] 2 = Inr [(1, 2), (1, 3), (4, 1), (4, 3), (5, 1), (5, 2)]
   \<and> PopularModel_model_predict_top_k scenario_popular (scenario_config 1)
       [(1, 1, 1), (4, 2, 1)] [1, 4, 5] [1, 2, 3] 1 = Inr [(1, 2), (4, 1), (5, 1)]
   \<and> PopularModel_model_predict_top_k scenario_popular (scenario_config 10)
       [(1, 1, 1), (4, 2, 1)] [1, 4, 5] [1, 2, 3] 1 = Inr [(1, 2), (4, 1), (5, 1)]"
proof -
  have h1: "0 < valid_batch_size (scenario_config 1)" by (simp add: scenario_config_def)
  have h2: "0 < valid_batch_size (scenario_config 10)" by (simp add: scenario_config_def)
  have d: "distinct [1, 2, 3 :: nat]" by simp
  have e1: "StoriesRecModel_model_predict_top_k scenario_model (scenario_config 1)
       [(1, 1, 1), (4, 2, 1)] [1, 4, 5] [1, 2, 3] 2 = Inr [(1, 2), (1, 3), (4, 1), (4, 3), (5, 1), (5, 2)]"
    by code_simp
  have e2: "PopularModel_model_predict_top_k scenario_popular (scenario_config 1)
       [(1, 1, 1), (4, 2, 1)] [1, 4, 5] [1, 2, 3] 1 = Inr [(1, 2), (4, 1), (5, 1)]"
    by code_simp
  from batch_size_invariance [OF h1 h2, of scenario_model "[(1, 1, 1), (4, 2, 1)]" "[1, 4, 5]"
      "[1, 2, 3]" 2 scenario_popular]
  have "StoriesRecModel_model_predict_top_k scenario_model (scenario_config 10)
       [(1, 1, 1), (4, 2, 1)] [1, 4, 5] [1, 2, 3] 2 = Inr [(1, 2), (1, 3), (4, 1), (4, 3), (5, 1), (5, 2)]"
    using e1 by simp
  moreover from batch_size_invariance [OF h1 h2, of scenario_model "[(1, 1, 1), (4, 2, 1)]" "[1, 4, 5]"
      "[1, 2, 3]" 1 scenario_popular]
  have "PopularModel_model_predict_top_k scenario_popular (scenario_config 10)
       [(1, 1, 1), (4, 2, 1)] [1, 4, 5] [1, 2, 3] 1 = Inr [(1, 2), (4, 1), (5, 1)]"
    using e2 d by simp
  ultimately show ?thesis using h1 h2 e1 e2 by simp
qed

section \<open>The restricted candidate list of the popularity model\<close>



section \<open>The popularity score\<close>

text \<open>
  Claim C6, amended. For every trained popularity model whose score denominator,
  total + beta, is not zero: the score of an item of the popularity table, with the
  popularity c, is (c + alpha) / (total + beta), where total is the sum of the table's
  popularities; the score of an item that the table does not have is 0.0; the score has
  no user argument, and the score row that \<open>model_predict_top_k\<close> expands for a batch is
  the same row for every user of the batch. With the default training the popularity of
  an item is its interaction count, the number of its log rows with the relevance 1,
  total is the number of such rows of the log, and an item whose interaction count is 0
  is not in the table: its score is 0.0, not alpha / (total + beta).

  In the scenario with alpha = beta = 1000, ten interactions with item 1 and none with
  item 2, the scores are 1010/1010 and 0.0, and item 1 ranks above item 2.
\<close>

theorem popularity_score_formula:
  assumes "m = model_train value_counts fl cfg alpha_arg beta_arg df_log"
    and "sum_list (map snd (items_popularity m)) + beta m \<noteq> 0"
  shows "alpha m = alpha_arg \<and> beta m = beta_arg
       \<and> (\<forall>(item, c)\<in>set (items_popularity m).
            popular_score m item =
              (c + alpha m) / (sum_list (map snd (items_popularity m)) + beta m))
       \<and> (\<forall>item. item \<notin> fst ` set (items_popularity m) \<longrightarrow> popular_score m item = 0)
       \<and> (\<forall>u<n. expand_row (map (popular_score m) id_items) n ! u = map (popular_score m) id_items)
       \<and> (\<not> use_mean_relevance cfg \<and> \<not> use_item_freq_predict cfg \<longrightarrow>
            sum_list (map snd (items_popularity m)) =
              real (length (filter (\<lambda>(u, i, r). r = 1)
                      (low_freq_train_items value_counts fl cfg df_log)))
            \<and> (\<forall>item. popular_score m item =
                  (let c = interaction_count (low_freq_train_items value_counts fl cfg df_log) item
                   in if c = 0 then 0
                      else (real c + alpha m)
                             / (sum_list (map snd (items_popularity m)) + beta m))))"
proof (intro conjI ballI allI impI)
  show "alpha m = alpha_arg" and "beta m = beta_arg"
    by (simp_all add: assms(1) model_train_fields)
next
  fix x
  assume x: "x \<in> set (items_popularity m)"
  obtain item c where "x = (item, c)" by (cases x)
  moreover have "distinct (map fst (items_popularity m))"
    unfolding assms(1) by (rule distinct_model_train)
  ultimately show "case x of (item, c) \<Rightarrow>
        popular_score m item = (c + alpha m) / (sum_list (map snd (items_popularity m)) + beta m)"
    using x by (simp add: popular_score_table)
next
  fix item
  assume "item \<notin> fst ` set (items_popularity m)"
  then show "popular_score m item = 0" by (rule popular_score_absent)
next
  fix u
  assume "u < n"
  then show "expand_row (map (popular_score m) id_items) n ! u = map (popular_score m) id_items"
    by (simp add: expand_row_def)
next
  assume d: "\<not> use_mean_relevance cfg \<and> \<not> use_item_freq_predict cfg"
  then show "sum_list (map snd (items_popularity m)) =
      real (length (filter (\<lambda>(u, i, r). r = 1) (low_freq_train_items value_counts fl cfg df_log)))"
    unfolding assms(1) by (simp add: default_training_total)
  fix item
  from d show "popular_score m item =
      (let c = interaction_count (low_freq_train_items value_counts fl cfg df_log) item
       in if c = 0 then 0
          else (real c + alpha m) / (sum_list (map snd (items_popularity m)) + beta m))"
    using assms(1) by (intro popular_score_default_training) simp_all
qed

theorem popularity_score_formula_witness:
  "sum_list (map snd (items_popularity scenario_trained)) + beta scenario_trained \<noteq> 0
   \<and> interaction_count scenario_log 1 = 10 \<and> interaction_count scenario_log 2 = 0
   \<and> items_popularity scenario_trained = [(1, 10)]
   \<and> popular_score scenario_trained 1 = (10 + 1000) / (10 + 1000)
   \<and> popular_score scenario_trained 2 = 0
   \<and> popular_score scenario_trained 2 < popular_score scenario_trained 1"
proof -
  have h2: "sum_list (map snd (items_popularity scenario_trained)) + beta scenario_trained \<noteq> 0"
    by code_simp
  have t: "items_popularity scenario_trained = [(1, 10)]" by code_simp
  have c: "interaction_count scenario_log 1 = 10" "interaction_count scenario_log 2 = 0"
    by code_simp+
  have f: "\<not> use_mean_relevance (scenario_config 10) \<and> \<not> use_item_freq_predict (scenario_config 10)"
    by (simp add: scenario_config_def)
  have l: "low_freq_train_items value_counts_by_user (\<lambda>x. x) (scenario_config 10) scenario_log =
             scenario_log"
    by (simp add: low_freq_train_items_def scenario_config_def)
  from popularity_score_formula [OF scenario_trained_def h2] f
  have a: "alpha scenario_trained = 1000" and b: "beta scenario_trained = 1000"
    and s: "popular_score scenario_trained item =
      (let c = interaction_count
                 (low_freq_train_items value_counts_by_user (\<lambda>x. x) (scenario_config 10)
                    scenario_log) item
       in if c = 0 then 0
          else (real c + alpha scenario_trained)
                 / (sum_list (map snd (items_popularity scenario_trained)) + beta scenario_trained))"
    for item
    by blast+
  have s1: "popular_score scenario_trained 1 = (10 + 1000) / (10 + 1000)"
    unfolding s [of 1] l c a b t by simp
  have s2: "popular_score scenario_trained 2 = 0"
    unfolding s [of 2] l c by simp
  show ?thesis
    using h2 t c s1 s2 by simp
qed

theorem zero_count_item_scored_zero_counterexample:
  "interaction_count scenario_log 1 = 10 \<and> interaction_count scenario_log 2 = 0
   \<and> alpha scenario_trained = 1000 \<and> beta scenario_trained = 1000
   \<and> items_popularity scenario_trained = [(1, 10)]
   \<and> popular_score scenario_trained 1 = 1010 / 1010
   \<and> popular_score scenario_trained 2 = 0
   \<and> popular_score scenario_trained 2 \<noteq> 1000 / 1010"
  by code_simp

section \<open>The value of a masked score\<close>

text \<open>
  Claim C4, amended. For every score batch and every mask that the mask builder returns
  for the batch, the combined score equals the raw score where the pair is not excluded,
  and equals the constant -1 where it is excluded: a finite value, not negative infinity
  and not a large one. That constant is strictly below an unmasked score exactly when the
  raw score exceeds -1; this holds for every output of the sigmoid activation, for the
  cosine activation of every product above -3, and for every popularity score of a model
  with non-negative popularities, alpha at least 0 and beta above 0.

  It does not hold for every score the code can produce: a popularity model constructed
  with alpha = -3000 scores its items below -1, the masked item then has the highest
  combined score, and the top-1 recommendation of the user is the excluded item.
\<close>

theorem masked_score_is_minus_one:
  assumes "build_drop_mask (groupby_count df) batch id_items = Inr dm"
    and "i < length batch" and "j < length id_items"
    and "length user_item = length batch" and "length (user_item ! i) = length id_items"
  shows "mask_scores dm user_item ! i ! j =
           (if excluded df (batch ! i) (id_items ! j) then - 1 else user_item ! i ! j)
       \<and> (\<not> excluded df (batch ! i) (id_items ! j) \<longrightarrow>
            (- 1 < mask_scores dm user_item ! i ! j) = (- 1 < user_item ! i ! j))
       \<and> - 1 < activation_forward Sigmoid t
       \<and> (- 3 < t \<longrightarrow> - 1 < activation_forward Cosine t)
       \<and> ((\<forall>(item, c)\<in>set (items_popularity p). 0 \<le> c) \<and> 0 \<le> alpha p \<and> 0 < beta p
            \<longrightarrow> - 1 < popular_score p (id_items ! j))"
proof -
  have dm: "dm = map (mask_row df id_items) batch"
    using assms(1) by (simp add: build_drop_mask_groupby)
  have "mask_scores dm user_item ! i ! j = masked_score (dm ! i ! j) (user_item ! i ! j)"
    using assms by (intro mask_scores_nth) (simp_all add: dm mask_row_def)
  moreover have "dm ! i ! j = (if excluded df (batch ! i) (id_items ! j) then 1 else 0)"
    using assms by (simp add: dm mask_row_def)
  ultimately have m: "mask_scores dm user_item ! i ! j =
           (if excluded df (batch ! i) (id_items ! j) then - 1 else user_item ! i ! j)"
    by simp
  have s: "- 1 < activation_forward Sigmoid t"
    using sigmoid_bounds(1) [of t] by (simp add: activation_forward_def)
  have c: "- 3 < t \<longrightarrow> - 1 < activation_forward Cosine t"
    by (simp add: activation_forward_def)
  have p: "(\<forall>(item, c)\<in>set (items_popularity p). 0 \<le> c) \<and> 0 \<le> alpha p \<and> 0 < beta p
            \<longrightarrow> - 1 < popular_score p (id_items ! j)"
    using popular_score_nonneg [of p "id_items ! j"] by force
  show ?thesis using m s c p by simp
qed

theorem masked_score_is_minus_one_witness:
  "build_drop_mask (groupby_count [(7, 2, 1)]) [7] [1, 2] = Inr [[0, 1]]
   \<and> mask_scores [[0, 1]] [[9 / 10, 1 / 2]] ! 0 ! 1 = - 1
   \<and> mask_scores [[0, 1]] [[9 / 10, 1 / 2]] ! 0 ! 0 = 9 / 10
   \<and> - 1 < popular_score scenario_popular 2"
proof -
  have h1: "build_drop_mask (groupby_count [(7, 2, 1)]) [7] [1, 2] = Inr [[0, 1]]" by code_simp
  have e: "excluded [(7, 2, 1)] 7 2" "\<not> excluded [(7, 2, 1)] 7 1" by code_simp+
  have n: "\<forall>(item, c)\<in>set (items_popularity scenario_popular). 0 \<le> c"
    "0 \<le> alpha scenario_popular" "0 < beta scenario_popular"
    by (simp_all add: scenario_popular_def)
  have "mask_scores [[0, 1]] [[9 / 10, 1 / 2]] ! 0 ! 1 = - 1 \<and> - 1 < popular_score scenario_popular 2"
    using masked_score_is_minus_one [OF h1, of 0 1 "[[9 / 10, 1 / 2]]" 0 scenario_popular] e n
    by simp
  moreover have "mask_scores [[0, 1]] [[9 / 10, 1 / 2]] ! 0 ! 0 = 9 / 10"
    using masked_score_is_minus_one [OF h1, of 0 0 "[[9 / 10, 1 / 2]]" 0 scenario_popular] e
    by simp
  ultimately show ?thesis using h1 by simp
qed

theorem unmasked_score_below_sentinel_counterexample:
  "get_item_scores negative_alpha_popular = [(1, - 299 / 101), (2, - 300 / 101)]
   \<and> \<not> excluded [(7, 2, 1)] 7 1 \<and> excluded [(7, 2, 1)] 7 2
   \<and> mask_scores [[0, 1]] [[- 299 / 101, - 300 / 101]] = [[- 299 / 101, - 1]]
   \<and> (- 299 / 101 :: real) < - 1
   \<and> PopularModel_model_predict_top_k negative_alpha_popular (scenario_config 10)
        [(7, 2, 1)] [7] [1, 2] 1 = Inr [(7, 2)]"
  by code_simp
section \<open>The indices kept by transaction dropout\<close>

text \<open>
  Claim C10 says that for every \<open>trx_dropout\<close> in [0, 1) and every \<open>seq_len\<close> the sample
  size \<open>int(seq_len * (1 - trx_dropout) + 1)\<close> is at least 1 and at most \<open>seq_len\<close>, so that
  sampling without replacement cannot fail and \<open>get_idx\<close> returns sorted distinct indices
  below \<open>seq_len\<close>. In exact arithmetic that is so (\<open>get_idx_exact_arithmetic\<close> above).
  The program computes the size in binary64. For the rate \<open>2 ^ -60\<close> the difference
  \<open>1 - trx_dropout\<close> rounds to 1.0, the size for \<open>seq_len = 1\<close> is \<open>int(1 * 1.0 + 1) = 2\<close>,
  larger than the population, and \<open>np.random.choice\<close> raises ValueError.
\<close>

theorem get_idx_sample_too_large:
  "get_idx binary64 (1 / 2 ^ 60) 1 [0] = Inl ValueError"
proof -
  have "fl_size = 2" if "fl_size = py_int (binary64 (binary64 (real (1 :: nat) * binary64 (1 - 1 / 2 ^ 60)) + 1))"
    for fl_size
  proof -
    have "real (1 :: nat) * binary64 (1 - 1 / 2 ^ 60) = 1"
      unfolding binary64_below_one by simp
    then have t: "binary64 (real (1 :: nat) * binary64 (1 - 1 / 2 ^ 60)) = 1"
      by (simp only: binary64_one)
    then have "binary64 (real (1 :: nat) * binary64 (1 - 1 / 2 ^ 60)) + 1 = 2"
      by simp
    then have "binary64 (binary64 (real (1 :: nat) * binary64 (1 - 1 / 2 ^ 60)) + 1) = 2"
      by (simp only: binary64_two)
    with that show ?thesis by (simp add: py_int_def)
  qed
  then have s: "py_int (binary64 (binary64 (real (1 :: nat) * binary64 (1 - 1 / 2 ^ 60)) + 1)) = 2"
    by simp
  have c: "(0 :: real) < 1 / 2 ^ 60 \<and> (0 :: nat) < 1" by simp
  show ?thesis
    unfolding get_idx_def s by (simp only: c if_True) (simp add: random_choice_def)
qed

section \<open>Unknown identifiers\<close>




end
